theory Spec2Isabelle
  imports Complex_Main
begin

section \<open>Python values and the operations the scripts use on them\<close>

text \<open>
  The scripts work on whatever \<^verbatim>\<open>json.load\<close> returns, so a value is one of the six
  shapes of parsed JSON. Python's \<^verbatim>\<open>int\<close> and \<^verbatim>\<open>float\<close> are both \<open>JNum\<close>: the scripts
  only compare, subtract and truly divide numbers, which does not tell the two apart.
  Floats are taken as exact reals (rounding, overflow and the non-finite literals are
  outside this model), and so is the \<^verbatim>\<open>OverflowError\<close> that Python raises when an
  integer beyond the range of a float is divided or converted. A dict is the list of its
  items; a lookup takes the first binding of the key.
\<close>

datatype json =
    JNull
  | JBool bool
  | JNum real
  | JStr string
  | JArr "json list"
  | JObj "(string \<times> json) list"

datatype py_error =
    AttributeError
  | TypeError
  | ValueError
  | StatisticsError
  | ZeroDivisionError

text \<open>Sequencing of statements that may raise: the first exception ends the function.\<close>

fun and_then :: "py_error + 'a \<Rightarrow> ('a \<Rightarrow> py_error + 'b) \<Rightarrow> py_error + 'b" where
  "and_then (Inl e) f = Inl e"
| "and_then (Inr x) f = f x"

text \<open>\<^verbatim>\<open>d.get(key, default)\<close> on a dict.\<close>

definition dict_get :: "(string \<times> json) list \<Rightarrow> string \<Rightarrow> json \<Rightarrow> json" where
  "dict_get kv k d = (case map_of kv k of None \<Rightarrow> d | Some v \<Rightarrow> v)"

text \<open>\<^verbatim>\<open>r.get(key, default)\<close> on any value: only a dict has the method.\<close>

fun py_get :: "json \<Rightarrow> string \<Rightarrow> json \<Rightarrow> py_error + json" where
  "py_get (JObj kv) k d = Inr (dict_get kv k d)"
| "py_get _ k d = Inl AttributeError"

text \<open>Truth value of a value in a condition.\<close>

fun truthy :: "json \<Rightarrow> bool" where
  "truthy JNull = False"
| "truthy (JBool b) = b"
| "truthy (JNum x) = (x \<noteq> 0)"
| "truthy (JStr s) = (s \<noteq> [])"
| "truthy (JArr xs) = (xs \<noteq> [])"
| "truthy (JObj kv) = (kv \<noteq> [])"

text \<open>The number a value stands for in arithmetic; \<^verbatim>\<open>bool\<close> is a subclass of \<^verbatim>\<open>int\<close>.\<close>

fun num_of :: "json \<Rightarrow> real option" where
  "num_of (JNum x) = Some x"
| "num_of (JBool b) = Some (if b then 1 else 0)"
| "num_of _ = None"

definition py_gt :: "json \<Rightarrow> real \<Rightarrow> py_error + bool" where
  "py_gt a y = (case num_of a of None \<Rightarrow> Inl TypeError | Some x \<Rightarrow> Inr (x > y))"

definition py_lt :: "json \<Rightarrow> real \<Rightarrow> py_error + bool" where
  "py_lt a y = (case num_of a of None \<Rightarrow> Inl TypeError | Some x \<Rightarrow> Inr (x < y))"

definition py_sub :: "json \<Rightarrow> json \<Rightarrow> py_error + real" where
  "py_sub a b = (case num_of a of None \<Rightarrow> Inl TypeError
       | Some x \<Rightarrow> (case num_of b of None \<Rightarrow> Inl TypeError | Some y \<Rightarrow> Inr (x - y)))"

text \<open>True division \<^verbatim>\<open>a / b\<close>.\<close>

definition py_truediv :: "json \<Rightarrow> json \<Rightarrow> py_error + real" where
  "py_truediv a b = (case num_of a of None \<Rightarrow> Inl TypeError
       | Some x \<Rightarrow> (case num_of b of None \<Rightarrow> Inl TypeError
           | Some y \<Rightarrow> if y = 0 then Inl ZeroDivisionError else Inr (x / y)))"

text \<open>The format specification \<^verbatim>\<open>:.2f\<close> in an f-string: only a number accepts it.\<close>

fun format_f :: "json \<Rightarrow> py_error + unit" where
  "format_f (JNum x) = Inr ()"
| "format_f (JBool b) = Inr ()"
| "format_f (JStr s) = Inl ValueError"
| "format_f _ = Inl TypeError"

text \<open>\<^verbatim>\<open>max(a, 1)\<close>: the builtin compares \<^verbatim>\<open>1 > a\<close> and keeps \<open>a\<close> unless that holds.\<close>

definition py_max1 :: "json \<Rightarrow> py_error + real" where
  "py_max1 a = (case num_of a of None \<Rightarrow> Inl TypeError
       | Some x \<Rightarrow> Inr (if 1 > x then 1 else x))"

text \<open>\<^verbatim>\<open>statistics.mean\<close> of a list of values.\<close>

fun nums_of :: "json list \<Rightarrow> py_error + real list" where
  "nums_of [] = Inr []"
| "nums_of (v # vs) = (case num_of v of None \<Rightarrow> Inl TypeError
       | Some x \<Rightarrow> and_then (nums_of vs) (\<lambda>xs. Inr (x # xs)))"

definition mean :: "json list \<Rightarrow> py_error + real" where
  "mean vs = (if vs = [] then Inl StatisticsError
      else and_then (nums_of vs) (\<lambda>xs. Inr (sum_list xs / real (length xs))))"

text \<open>A list comprehension with a condition, and one without, over calls that may raise.\<close>

fun filter_e :: "('a \<Rightarrow> py_error + bool) \<Rightarrow> 'a list \<Rightarrow> py_error + 'a list" where
  "filter_e p [] = Inr []"
| "filter_e p (x # xs) =
     and_then (p x) (\<lambda>b. and_then (filter_e p xs) (\<lambda>ys. Inr (if b then x # ys else ys)))"

fun map_e :: "('a \<Rightarrow> py_error + 'b) \<Rightarrow> 'a list \<Rightarrow> py_error + 'b list" where
  "map_e f [] = Inr []"
| "map_e f (x # xs) = and_then (f x) (\<lambda>y. and_then (map_e f xs) (\<lambda>ys. Inr (y # ys)))"


section \<open>Metrics extraction\<close>

text \<open>
  \<^verbatim>\<open>extract_metrics\<close> is the same text in \<^verbatim>\<open>check-performance-regression.py\<close> and in
  \<^verbatim>\<open>performance-comparison.py\<close>. The tuple it returns is (average execution time,
  average memory in MB, failure rate, successful count, total count). For a summary
  dict the first, fourth and fifth components are whatever the dict holds.
\<close>

type_synonym metrics = "json \<times> json \<times> real \<times> json \<times> json"

definition is_success :: "json \<Rightarrow> py_error + bool" where
  "is_success r = and_then (py_get r ''success'' (JBool False)) (\<lambda>s. Inr (truthy s))"

definition is_failure :: "json \<Rightarrow> py_error + bool" where
  "is_failure r = and_then (py_get r ''success'' (JBool False)) (\<lambda>s. Inr (\<not> truthy s))"

definition metric_of :: "string \<Rightarrow> json \<Rightarrow> py_error + json" where
  "metric_of key r = and_then (py_get r ''metrics'' (JObj [])) (\<lambda>m. py_get m key (JNum 0))"

definition extract_metrics :: "json \<Rightarrow> py_error + metrics" where
  "extract_metrics data = (case data of
      JArr rs \<Rightarrow>
        and_then (filter_e is_success rs) (\<lambda>successful_results.
        and_then (filter_e is_failure rs) (\<lambda>failed_results.
        if successful_results = [] then
          Inr (JNum 0, JNum 0, 1, JNum 0, JNum (real (length rs)))
        else
        and_then (map_e (metric_of ''executionTime'') successful_results) (\<lambda>execution_times.
        and_then (map_e (metric_of ''memoryUsage'') successful_results) (\<lambda>memory_usage.
        and_then (if execution_times \<noteq> [] then mean execution_times else Inr 0)
          (\<lambda>avg_execution_time.
        and_then (if memory_usage \<noteq> []
                  then and_then (mean memory_usage) (\<lambda>m. Inr (m / (1024 * 1024)))
                  else Inr 0)
          (\<lambda>avg_memory_usage.
        and_then (if rs \<noteq> []
                  then py_truediv (JNum (real (length failed_results))) (JNum (real (length rs)))
                  else Inr 0)
          (\<lambda>failure_rate.
        Inr (JNum avg_execution_time, JNum avg_memory_usage, failure_rate,
             JNum (real (length successful_results)), JNum (real (length rs))))))))))
    | JObj kv \<Rightarrow>
        and_then (py_max1 (dict_get kv ''total_benchmarks'' (JNum 1))) (\<lambda>d.
        and_then (py_truediv (dict_get kv ''failed_benchmarks'' (JNum 0)) (JNum d))
          (\<lambda>failure_rate.
        Inr (dict_get kv ''avg_execution_time'' (JNum 0),
             dict_get kv ''memory_usage'' (JNum 0),
             failure_rate,
             dict_get kv ''successful_benchmarks'' (JNum 0),
             dict_get kv ''total_benchmarks'' (JNum 0))))
    | _ \<Rightarrow> Inr (JNum 0, JNum 0, 0, JNum 0, JNum 0))"


section \<open>Regression detection\<close>

text \<open>
  \<^verbatim>\<open>RegressionThresholds\<close> and \<^verbatim>\<open>ComparisonThresholds\<close> have the same four fields;
  \<^verbatim>\<open>main\<close> fills them from the command line (\<^verbatim>\<open>type=float\<close>, \<^verbatim>\<open>type=int\<close>).
\<close>

record thresholds =
  execution_time_percent :: real
  memory_usage_percent :: real
  failure_rate_increase :: real
  min_benchmarks :: int

definition default_thresholds :: thresholds where
  "default_thresholds = \<lparr>execution_time_percent = 10, memory_usage_percent = 15,
     failure_rate_increase = 5, min_benchmarks = 5\<rparr>"

text \<open>
  A recommendation is an f-string; each constructor is one template and carries the
  values the template interpolates, in the order they appear in it.
\<close>

datatype recommendation =
    InsufficientBenchmarks json int
  | ExecutionTimeIncreased real real
  | MemoryUsageIncreased real real
  | FailureRateIncreased real real
  | NoSignificantRegression

record regression_result =
  has_regression :: bool
  execution_time_regression :: bool
  memory_regression :: bool
  failure_rate_regression :: bool
  execution_time_change :: real
  memory_change :: real
  failure_rate_change :: real
  recommendations :: "recommendation list"

definition detect_regression :: "thresholds \<Rightarrow> json \<Rightarrow> json \<Rightarrow> py_error + regression_result" where
  "detect_regression th baseline_data current_data =
     and_then (extract_metrics baseline_data)
       (\<lambda>(baseline_time, baseline_memory, baseline_failure_rate, baseline_successful, baseline_total).
     and_then (extract_metrics current_data)
       (\<lambda>(current_time, current_memory, current_failure_rate, current_successful, current_total).
     and_then (py_lt current_successful (real_of_int (min_benchmarks th))) (\<lambda>too_few.
     if too_few then
       Inr \<lparr>has_regression = True,
            execution_time_regression = False,
            memory_regression = False,
            failure_rate_regression = False,
            execution_time_change = 0,
            memory_change = 0,
            failure_rate_change = 0,
            recommendations = [InsufficientBenchmarks current_successful (min_benchmarks th)]\<rparr>
     else
     and_then (py_gt baseline_time 0) (\<lambda>time_positive.
     and_then (if time_positive
               then and_then (py_sub current_time baseline_time) (\<lambda>d.
                    and_then (py_truediv (JNum d) baseline_time) (\<lambda>q. Inr (q * 100)))
               else Inr 0) (\<lambda>execution_time_change.
     and_then (py_gt baseline_memory 0) (\<lambda>memory_positive.
     and_then (if memory_positive
               then and_then (py_sub current_memory baseline_memory) (\<lambda>d.
                    and_then (py_truediv (JNum d) baseline_memory) (\<lambda>q. Inr (q * 100)))
               else Inr 0) (\<lambda>memory_change.
     let failure_rate_change = current_failure_rate - baseline_failure_rate;
         execution_time_regression = (execution_time_change > execution_time_percent th);
         memory_regression = (memory_change > memory_usage_percent th);
         failure_rate_regression = (failure_rate_change > failure_rate_increase th / 100);
         has_regression =
           (execution_time_regression \<or> memory_regression \<or> failure_rate_regression);
         recommendations = [];
         recommendations = (if execution_time_regression
           then recommendations @ [ExecutionTimeIncreased execution_time_change (execution_time_percent th)]
           else recommendations);
         recommendations = (if memory_regression
           then recommendations @ [MemoryUsageIncreased memory_change (memory_usage_percent th)]
           else recommendations);
         recommendations = (if failure_rate_regression
           then recommendations @ [FailureRateIncreased failure_rate_change (failure_rate_increase th)]
           else recommendations);
         recommendations = (if \<not> has_regression
           then recommendations @ [NoSignificantRegression]
           else recommendations)
     in Inr \<lparr>has_regression = has_regression,
             execution_time_regression = execution_time_regression,
             memory_regression = memory_regression,
             failure_rate_regression = failure_rate_regression,
             execution_time_change = execution_time_change,
             memory_change = memory_change,
             failure_rate_change = failure_rate_change,
             recommendations = recommendations\<rparr>)))))))"

text \<open>
  \<^verbatim>\<open>compare_performance\<close> of \<^verbatim>\<open>performance-comparison.py\<close>: the same computation; the
  per-metric flags live in the \<^verbatim>\<open>detailed_comparison\<close> dict, which is empty (\<open>None\<close>
  here) when there are too few benchmarks.
\<close>

record detailed =
  d_baseline :: metrics
  d_current :: metrics
  d_changes :: "real \<times> real \<times> real"
  d_regressions :: "bool \<times> bool \<times> bool"

record comparison_result =
  cmp_has_regression :: bool
  cmp_execution_time_change :: real
  cmp_memory_change :: real
  cmp_failure_rate_change :: real
  cmp_recommendations :: "recommendation list"
  detailed_comparison :: "detailed option"

definition compare_performance :: "thresholds \<Rightarrow> json \<Rightarrow> json \<Rightarrow> py_error + comparison_result" where
  "compare_performance th baseline_data current_data =
     and_then (extract_metrics baseline_data)
       (\<lambda>(baseline_time, baseline_memory, baseline_failure_rate, baseline_successful, baseline_total).
     and_then (extract_metrics current_data)
       (\<lambda>(current_time, current_memory, current_failure_rate, current_successful, current_total).
     and_then (py_lt current_successful (real_of_int (min_benchmarks th))) (\<lambda>too_few.
     if too_few then
       Inr \<lparr>cmp_has_regression = True,
            cmp_execution_time_change = 0,
            cmp_memory_change = 0,
            cmp_failure_rate_change = 0,
            cmp_recommendations = [InsufficientBenchmarks current_successful (min_benchmarks th)],
            detailed_comparison = None\<rparr>
     else
     and_then (py_gt baseline_time 0) (\<lambda>time_positive.
     and_then (if time_positive
               then and_then (py_sub current_time baseline_time) (\<lambda>d.
                    and_then (py_truediv (JNum d) baseline_time) (\<lambda>q. Inr (q * 100)))
               else Inr 0) (\<lambda>execution_time_change.
     and_then (py_gt baseline_memory 0) (\<lambda>memory_positive.
     and_then (if memory_positive
               then and_then (py_sub current_memory baseline_memory) (\<lambda>d.
                    and_then (py_truediv (JNum d) baseline_memory) (\<lambda>q. Inr (q * 100)))
               else Inr 0) (\<lambda>memory_change.
     let failure_rate_change = current_failure_rate - baseline_failure_rate;
         execution_time_regression = (execution_time_change > execution_time_percent th);
         memory_regression = (memory_change > memory_usage_percent th);
         failure_rate_regression = (failure_rate_change > failure_rate_increase th / 100);
         has_regression =
           (execution_time_regression \<or> memory_regression \<or> failure_rate_regression);
         recommendations = [];
         recommendations = (if execution_time_regression
           then recommendations @ [ExecutionTimeIncreased execution_time_change (execution_time_percent th)]
           else recommendations);
         recommendations = (if memory_regression
           then recommendations @ [MemoryUsageIncreased memory_change (memory_usage_percent th)]
           else recommendations);
         recommendations = (if failure_rate_regression
           then recommendations @ [FailureRateIncreased failure_rate_change (failure_rate_increase th)]
           else recommendations);
         recommendations = (if \<not> has_regression
           then recommendations @ [NoSignificantRegression]
           else recommendations)
     in Inr \<lparr>cmp_has_regression = has_regression,
             cmp_execution_time_change = execution_time_change,
             cmp_memory_change = memory_change,
             cmp_failure_rate_change = failure_rate_change,
             cmp_recommendations = recommendations,
             detailed_comparison = Some \<lparr>
               d_baseline = (baseline_time, baseline_memory, baseline_failure_rate,
                             baseline_successful, baseline_total),
               d_current = (current_time, current_memory, current_failure_rate,
                            current_successful, current_total),
               d_changes = (execution_time_change, memory_change, failure_rate_change),
               d_regressions = (execution_time_regression, memory_regression,
                                failure_rate_regression)\<rparr>\<rparr>)))))))"

section \<open>The performance gate\<close>

record performance_gate =
  max_execution_time_ms :: real
  max_memory_usage_mb :: real
  max_failure_rate :: real
  gate_regression_threshold_percent :: real

definition default_gate :: performance_gate where
  "default_gate = \<lparr>max_execution_time_ms = 1000, max_memory_usage_mb = 100,
     max_failure_rate = 0, gate_regression_threshold_percent = 10\<rparr>"

text \<open>
  The verdict lines \<^verbatim>\<open>check_gate\<close> prints. The failure-rate line carries the rate
  and the ceiling it interpolates.
\<close>

datatype gate_line =
    FailExecutionTime
  | FailMemoryUsage
  | FailFailureRate real real
  | FailRegression
  | PassAllGates

text \<open>
  \<^verbatim>\<open>check_gate\<close> returns the verdict lines it printed and its boolean result. The
  four header lines are kept only for the exceptions their formatting can raise.
\<close>

definition check_gate :: "performance_gate \<Rightarrow> json \<Rightarrow> py_error + gate_line list \<times> bool" where
  "check_gate gate summary =
     and_then (py_get summary ''avg_execution_time'' (JNum 0)) (\<lambda>shown_time.
     and_then (format_f shown_time) (\<lambda>_.
     and_then (py_get summary ''memory_usage'' (JNum 0)) (\<lambda>shown_memory.
     and_then (format_f shown_memory) (\<lambda>_.
     and_then (py_get summary ''avg_execution_time'' (JNum 0)) (\<lambda>avg_execution_time.
     and_then (py_gt avg_execution_time (max_execution_time_ms gate)) (\<lambda>too_slow.
     if too_slow then Inr ([FailExecutionTime], False)
     else
     and_then (py_get summary ''memory_usage'' (JNum 0)) (\<lambda>memory_usage.
     and_then (py_gt memory_usage (max_memory_usage_mb gate)) (\<lambda>too_large.
     if too_large then Inr ([FailMemoryUsage], False)
     else
     and_then (py_get summary ''total_benchmarks'' (JNum 0)) (\<lambda>total_benchmarks.
     and_then (py_get summary ''failed_benchmarks'' (JNum 0)) (\<lambda>failed_benchmarks.
     and_then (py_gt total_benchmarks 0) (\<lambda>has_benchmarks.
     and_then (if has_benchmarks
               then and_then (py_truediv failed_benchmarks total_benchmarks) (\<lambda>failure_rate.
                    Inr (if failure_rate > max_failure_rate gate then Some failure_rate else None))
               else Inr None) (\<lambda>rate_exceeded.
     case rate_exceeded of
       Some failure_rate \<Rightarrow> Inr ([FailFailureRate failure_rate (max_failure_rate gate)], False)
     | None \<Rightarrow>
     and_then (py_get summary ''regression_detected'' (JBool False)) (\<lambda>regression_detected.
     if truthy regression_detected then Inr ([FailRegression], False)
     else Inr ([PassAllGates], True))))))))))))))"

text \<open>
  The four checks of the gate as the specification words them (section 4.4), each on
  its own, and the list of every reason that applies, in the order of the checks.
\<close>

definition time_check_fails :: "performance_gate \<Rightarrow> (string \<times> json) list \<Rightarrow> bool" where
  "time_check_fails gate kv =
     (case num_of (dict_get kv ''avg_execution_time'' (JNum 0)) of
        None \<Rightarrow> False | Some x \<Rightarrow> x > max_execution_time_ms gate)"

definition memory_check_fails :: "performance_gate \<Rightarrow> (string \<times> json) list \<Rightarrow> bool" where
  "memory_check_fails gate kv =
     (case num_of (dict_get kv ''memory_usage'' (JNum 0)) of
        None \<Rightarrow> False | Some x \<Rightarrow> x > max_memory_usage_mb gate)"

definition summary_failure_rate :: "(string \<times> json) list \<Rightarrow> real option" where
  "summary_failure_rate kv =
     (case num_of (dict_get kv ''total_benchmarks'' (JNum 0)) of
        None \<Rightarrow> None
      | Some t \<Rightarrow> (case num_of (dict_get kv ''failed_benchmarks'' (JNum 0)) of
          None \<Rightarrow> None
        | Some f \<Rightarrow> if t > 0 then Some (f / t) else None))"

definition failure_rate_check_fails :: "performance_gate \<Rightarrow> (string \<times> json) list \<Rightarrow> bool" where
  "failure_rate_check_fails gate kv =
     (case summary_failure_rate kv of None \<Rightarrow> False | Some r \<Rightarrow> r > max_failure_rate gate)"

definition regression_check_fails :: "(string \<times> json) list \<Rightarrow> bool" where
  "regression_check_fails kv = truthy (dict_get kv ''regression_detected'' (JBool False))"

definition all_failure_reasons :: "performance_gate \<Rightarrow> (string \<times> json) list \<Rightarrow> gate_line list" where
  "all_failure_reasons gate kv =
     (if time_check_fails gate kv then [FailExecutionTime] else []) @
     (if memory_check_fails gate kv then [FailMemoryUsage] else []) @
     (case summary_failure_rate kv of
        None \<Rightarrow> []
      | Some r \<Rightarrow> if r > max_failure_rate gate then [FailFailureRate r (max_failure_rate gate)] else []) @
     (if regression_check_fails kv then [FailRegression] else [])"


section \<open>Loading the inputs and the entry point of the regression check\<close>

text \<open>
  What a path holds when a script opens it: nothing, something \<^verbatim>\<open>open\<close> or
  \<^verbatim>\<open>json.load\<close> raises on, or JSON text with its parsed value.
\<close>

datatype input_file = Missing | Unreadable | Parsed json

datatype event =
    WarnBaselineNotFound
  | ErrorLoadingBaseline
  | ErrorCurrentNotFound
  | ErrorLoadingCurrent
  | ErrorCouldNotLoad
  | ComparisonTable metrics metrics
  | AnalysisTable regression_result
  | RecommendationLine recommendation
  | BuildRejected
  | NoRegressionFound

text \<open>Both loaders return \<^verbatim>\<open>None\<close>, here \<open>JNull\<close>, when they have nothing.\<close>

fun load_baseline :: "input_file \<Rightarrow> event list \<times> json" where
  "load_baseline Missing = ([WarnBaselineNotFound], JNull)"
| "load_baseline Unreadable = ([ErrorLoadingBaseline], JNull)"
| "load_baseline (Parsed j) = ([], j)"

fun load_current :: "input_file \<Rightarrow> event list \<times> json" where
  "load_current Missing = ([ErrorCurrentNotFound], JNull)"
| "load_current Unreadable = ([ErrorLoadingCurrent], JNull)"
| "load_current (Parsed j) = ([], j)"

text \<open>
  \<^verbatim>\<open>print_comparison\<close> formats the two times and the two memory figures with
  \<^verbatim>\<open>:.2f\<close>; the table is one event, and is lost when a format raises.
\<close>

definition print_comparison :: "metrics \<Rightarrow> metrics \<Rightarrow> py_error + event list" where
  "print_comparison baseline_metrics current_metrics =
     (case baseline_metrics of
        (baseline_time, baseline_memory, baseline_failure_rate, baseline_successful, baseline_total) \<Rightarrow>
      case current_metrics of
        (current_time, current_memory, current_failure_rate, current_successful, current_total) \<Rightarrow>
     and_then (format_f baseline_time) (\<lambda>_.
     and_then (format_f current_time) (\<lambda>_.
     and_then (format_f baseline_memory) (\<lambda>_.
     and_then (format_f current_memory) (\<lambda>_.
     Inr [ComparisonTable baseline_metrics current_metrics])))))"

text \<open>
  How the process ends: \<^verbatim>\<open>sys.exit\<close> with a status, or an exception nobody catches
  (the interpreter prints the traceback and the status is 1).
\<close>

datatype outcome = Exit nat | Uncaught py_error

definition main :: "thresholds \<Rightarrow> input_file \<Rightarrow> input_file \<Rightarrow> event list \<times> outcome" where
  "main th baseline_file current_file =
     (case load_baseline baseline_file of (out_b, baseline_data) \<Rightarrow>
     (case load_current current_file of (out_c, current_data) \<Rightarrow>
      let out = out_b @ out_c in
      if baseline_data = JNull \<or> current_data = JNull then (out @ [ErrorCouldNotLoad], Exit 1)
      else
     (case extract_metrics baseline_data of
        Inl e \<Rightarrow> (out, Uncaught e)
      | Inr baseline_metrics \<Rightarrow>
     (case extract_metrics current_data of
        Inl e \<Rightarrow> (out, Uncaught e)
      | Inr current_metrics \<Rightarrow>
     (case print_comparison baseline_metrics current_metrics of
        Inl e \<Rightarrow> (out, Uncaught e)
      | Inr table \<Rightarrow>
     (case detect_regression th baseline_data current_data of
        Inl e \<Rightarrow> (out @ table, Uncaught e)
      | Inr result \<Rightarrow>
          (out @ table @ [AnalysisTable result]
             @ map RecommendationLine (recommendations result)
             @ (if has_regression result then [BuildRejected] else [NoRegressionFound]),
           Exit (if has_regression result then 1 else 0))))))))"


section \<open>The analyzer\<close>

record perf_thresholds =
  execution_time_ms :: real
  memory_usage_mb :: real
  regression_threshold_percent :: real
  max_failed_benchmarks :: int

text \<open>The fields of a \<^verbatim>\<open>BenchmarkResult\<close> hold what the JSON item held.\<close>

record benchmark_result =
  suite :: json
  name :: json
  execution_time :: json
  memory_usage :: json
  success :: json
  error :: json
  timestamp :: json
  lean_version :: json
  platform :: json

datatype analysis_note =
    NoResultsFound
  | AllBenchmarksFailed
  | AverageTimeExceeds real real
  | AverageMemoryExceeds real real
  | TooManyFailed nat int
  | TimeRegressionFromBaseline real

record performance_summary =
  status :: string
  avg_execution_time :: real
  summary_memory_usage :: real
  regression_detected :: bool
  failed_benchmarks :: nat
  total_benchmarks :: nat
  summary_recommendations :: "analysis_note list"

definition make_result :: "(string \<times> json) list \<Rightarrow> (string \<times> json) list \<Rightarrow> benchmark_result" where
  "make_result item m =
     \<lparr>suite = dict_get item ''suite'' (JStr ''unknown''),
      name = dict_get item ''name'' (JStr ''unknown''),
      execution_time = dict_get m ''executionTime'' (JNum 0),
      memory_usage = dict_get m ''memoryUsage'' (JNum 0),
      success = dict_get item ''success'' (JBool False),
      error = dict_get item ''error'' JNull,
      timestamp = dict_get m ''timestamp'' (JStr []),
      lean_version = dict_get m ''leanVersion'' (JStr []),
      platform = dict_get m ''platform'' (JStr [])\<rparr>"

text \<open>
  The loop of \<^verbatim>\<open>_load_json_file\<close> over the items of a list: an item that is not a dict
  or has no \<^verbatim>\<open>metrics\<close> key is skipped; a \<^verbatim>\<open>metrics\<close> value without \<^verbatim>\<open>.get\<close> raises,
  the handler around the loop prints a warning, and the results appended so far stay.
\<close>

fun load_items :: "json list \<Rightarrow> benchmark_result list \<Rightarrow> benchmark_result list" where
  "load_items [] results = results"
| "load_items (JObj item # items) results =
     (case map_of item ''metrics'' of
        None \<Rightarrow> load_items items results
      | Some (JObj m) \<Rightarrow> load_items items (results @ [make_result item m])
      | Some _ \<Rightarrow> results)"
| "load_items (_ # items) results = load_items items results"

definition load_json_file :: "input_file \<Rightarrow> benchmark_result list \<Rightarrow> benchmark_result list" where
  "load_json_file f results =
     (case f of Parsed (JArr items) \<Rightarrow> load_items items results | _ \<Rightarrow> results)"

definition analyze_performance ::
    "perf_thresholds \<Rightarrow> benchmark_result list \<Rightarrow> benchmark_result list
       \<Rightarrow> py_error + performance_summary" where
  "analyze_performance th results baseline_results =
     (if results = [] then
        Inr \<lparr>status = ''ERROR'', avg_execution_time = 0, summary_memory_usage = 0,
             regression_detected = False, failed_benchmarks = 0, total_benchmarks = 0,
             summary_recommendations = [NoResultsFound]\<rparr>
      else
      let successful_results = filter (\<lambda>r. truthy (success r)) results;
          failed_results = filter (\<lambda>r. \<not> truthy (success r)) results
      in
      if successful_results = [] then
        Inr \<lparr>status = ''FAILED'', avg_execution_time = 0, summary_memory_usage = 0,
             regression_detected = True, failed_benchmarks = length failed_results,
             total_benchmarks = length results,
             summary_recommendations = [AllBenchmarksFailed]\<rparr>
      else
      and_then (mean (map execution_time successful_results)) (\<lambda>avg_time.
      and_then (mean (map memory_usage successful_results)) (\<lambda>mean_memory.
      let avg_memory_usage = mean_memory / (1024 * 1024);
          detected = False;
          notes = [];
          (detected, notes) = (if avg_time > execution_time_ms th
             then (True, notes @ [AverageTimeExceeds avg_time (execution_time_ms th)])
             else (detected, notes));
          (detected, notes) = (if avg_memory_usage > memory_usage_mb th
             then (True, notes @ [AverageMemoryExceeds avg_memory_usage (memory_usage_mb th)])
             else (detected, notes));
          (detected, notes) = (if int (length failed_results) > max_failed_benchmarks th
             then (True, notes @ [TooManyFailed (length failed_results) (max_failed_benchmarks th)])
             else (detected, notes))
      in
      and_then
        (if baseline_results \<noteq> [] then
           let baseline_successful = filter (\<lambda>r. truthy (success r)) baseline_results in
           if baseline_successful \<noteq> [] then
             and_then (mean (map execution_time baseline_successful)) (\<lambda>baseline_avg_time.
             and_then (py_truediv (JNum (avg_time - baseline_avg_time)) (JNum baseline_avg_time))
               (\<lambda>q.
             let time_regression = q * 100 in
             if time_regression > regression_threshold_percent th
             then Inr (True, notes @ [TimeRegressionFromBaseline time_regression])
             else Inr (detected, notes)))
           else Inr (detected, notes)
         else Inr (detected, notes))
        (\<lambda>(detected, notes).
      let status = (if detected then ''REGRESSION''
                    else if length failed_results > 0 then ''PARTIAL''
                    else ''PASS'')
      in Inr \<lparr>status = status, avg_execution_time = avg_time,
              summary_memory_usage = avg_memory_usage,
              regression_detected = detected,
              failed_benchmarks = length failed_results,
              total_benchmarks = length results,
              summary_recommendations = notes\<rparr>))))"

section \<open>The order of the recommendations, as specified\<close>

text \<open>
  Section 4.3 of the specification fixes the order time, memory, failure rate, then the
  message that nothing regressed; this is that list, read off a result.
\<close>

definition recommendations_in_order :: "thresholds \<Rightarrow> regression_result \<Rightarrow> recommendation list" where
  "recommendations_in_order th r =
     (if execution_time_regression r
      then [ExecutionTimeIncreased (execution_time_change r) (execution_time_percent th)] else []) @
     (if memory_regression r
      then [MemoryUsageIncreased (memory_change r) (memory_usage_percent th)] else []) @
     (if failure_rate_regression r
      then [FailureRateIncreased (failure_rate_change r) (failure_rate_increase th)] else []) @
     (if has_regression r then [] else [NoSignificantRegression])"

section \<open>Inputs that extraction can read\<close>

text \<open>
  The inputs on which \<^verbatim>\<open>extract_metrics\<close> does not raise. In a list every element is a
  dict, and every element counted as successful has a dict (or nothing) under
  \<^verbatim>\<open>metrics\<close> with numbers (or nothing) under \<^verbatim>\<open>executionTime\<close> and \<^verbatim>\<open>memoryUsage\<close>. In
  a summary dict \<^verbatim>\<open>total_benchmarks\<close> and \<^verbatim>\<open>failed_benchmarks\<close> are numbers or absent.
  Any other value is read as the all-zero tuple.
\<close>

fun is_number :: "json \<Rightarrow> bool" where
  "is_number (JNum x) = True"
| "is_number (JBool b) = True"
| "is_number _ = False"

fun readable_metrics :: "json \<Rightarrow> bool" where
  "readable_metrics (JObj m) =
     (is_number (dict_get m ''executionTime'' (JNum 0))
      \<and> is_number (dict_get m ''memoryUsage'' (JNum 0)))"
| "readable_metrics _ = False"

fun readable_record :: "json \<Rightarrow> bool" where
  "readable_record (JObj kv) =
     (if truthy (dict_get kv ''success'' (JBool False))
      then readable_metrics (dict_get kv ''metrics'' (JObj []))
      else True)"
| "readable_record _ = False"

fun readable :: "json \<Rightarrow> bool" where
  "readable (JArr rs) = list_all readable_record rs"
| "readable (JObj kv) =
     (is_number (dict_get kv ''total_benchmarks'' (JNum 1))
      \<and> is_number (dict_get kv ''failed_benchmarks'' (JNum 0)))"
| "readable _ = True"

fun is_summary :: "json \<Rightarrow> bool" where
  "is_summary (JObj kv) = True"
| "is_summary _ = False"

section \<open>Failed records the analyzer keeps\<close>

text \<open>
  A list element that is a dict, has a dict under \<^verbatim>\<open>metrics\<close>, and whose \<^verbatim>\<open>success\<close> is
  false or absent.
\<close>

fun failed_with_metrics :: "json \<Rightarrow> bool" where
  "failed_with_metrics (JObj kv) =
     (\<not> truthy (dict_get kv ''success'' (JBool False))
      \<and> (case map_of kv ''metrics'' of Some (JObj m) \<Rightarrow> True | _ \<Rightarrow> False))"
| "failed_with_metrics _ = False"

section \<open>The metrics tuple, as specified\<close>

text \<open>
  Sections 4.1 and 4.2 of the specification, for the inputs extraction can read. From a
  list: the fixed tuple of total failure when no record succeeded, else the means of the
  execution time and of the memory (divided by 1,048,576) over the successful records
  only, with 0 for an absent figure, the failed count over the total count, and the two
  counts. From a summary dict: the fields as they are, with 0 for an absent one, and the
  failed count over the larger of the total count and 1. From anything else: zeros.
\<close>

definition number :: "json \<Rightarrow> real" where
  "number v = (case num_of v of None \<Rightarrow> 0 | Some x \<Rightarrow> x)"

fun succeeded :: "json \<Rightarrow> bool" where
  "succeeded (JObj kv) = truthy (dict_get kv ''success'' (JBool False))"
| "succeeded _ = False"

fun metric_value :: "string \<Rightarrow> json \<Rightarrow> real" where
  "metric_value key (JObj kv) =
     (case dict_get kv ''metrics'' (JObj []) of
        JObj m \<Rightarrow> number (dict_get m key (JNum 0))
      | _ \<Rightarrow> 0)"
| "metric_value key _ = 0"

definition average :: "real list \<Rightarrow> real" where
  "average xs = sum_list xs / real (length xs)"

fun expected_metrics :: "json \<Rightarrow> metrics" where
  "expected_metrics (JArr rs) =
     (if filter succeeded rs = [] then (JNum 0, JNum 0, 1, JNum 0, JNum (real (length rs)))
      else (JNum (average (map (metric_value ''executionTime'') (filter succeeded rs))),
            JNum (average (map (metric_value ''memoryUsage'') (filter succeeded rs)) / 1048576),
            real (length (filter (\<lambda>r. \<not> succeeded r) rs)) / real (length rs),
            JNum (real (length (filter succeeded rs))),
            JNum (real (length rs))))"
| "expected_metrics (JObj kv) =
     (dict_get kv ''avg_execution_time'' (JNum 0),
      dict_get kv ''memory_usage'' (JNum 0),
      number (dict_get kv ''failed_benchmarks'' (JNum 0))
        / max (number (dict_get kv ''total_benchmarks'' (JNum 1))) 1,
      dict_get kv ''successful_benchmarks'' (JNum 0),
      dict_get kv ''total_benchmarks'' (JNum 0))"
| "expected_metrics _ = (JNum 0, JNum 0, 0, JNum 0, JNum 0)"

text \<open>
  The largest finite float, and the inputs whose numbers in the fields extraction
  computes with do not exceed it. A larger Python integer can make a true division or
  a conversion to float raise \<^verbatim>\<open>OverflowError\<close>, which the arithmetic above does not
  have; what is proved about returned values is stated for the inputs below only.
\<close>

definition max_float :: real where
  "max_float = (2 ^ 53 - 1) * 2 ^ 971"

fun float_sized :: "json \<Rightarrow> bool" where
  "float_sized (JNum x) = (\<bar>x\<bar> \<le> max_float)"
| "float_sized _ = True"

fun float_sized_metrics :: "json \<Rightarrow> bool" where
  "float_sized_metrics (JObj m) =
     (float_sized (dict_get m ''executionTime'' (JNum 0))
      \<and> float_sized (dict_get m ''memoryUsage'' (JNum 0)))"
| "float_sized_metrics _ = True"

fun float_sized_record :: "json \<Rightarrow> bool" where
  "float_sized_record (JObj kv) = float_sized_metrics (dict_get kv ''metrics'' (JObj []))"
| "float_sized_record _ = True"

fun within_float_range :: "json \<Rightarrow> bool" where
  "within_float_range (JArr rs) = list_all float_sized_record rs"
| "within_float_range (JObj kv) =
     (float_sized (dict_get kv ''total_benchmarks'' (JNum 1))
      \<and> float_sized (dict_get kv ''failed_benchmarks'' (JNum 0)))"
| "within_float_range _ = True"


section \<open>Inputs used in the examples\<close>

definition benchmark_record :: "bool \<Rightarrow> real \<Rightarrow> real \<Rightarrow> json" where
  "benchmark_record ok t m =
     JObj [(''suite'', JStr ''core''), (''name'', JStr ''bench''), (''success'', JBool ok),
           (''metrics'', JObj [(''executionTime'', JNum t), (''memoryUsage'', JNum m)])]"

definition failed_record_without_metrics :: json where
  "failed_record_without_metrics =
     JObj [(''suite'', JStr ''core''), (''name'', JStr ''bench''), (''success'', JBool False),
           (''error'', JStr ''timeout'')]"

definition summary_items :: "real \<Rightarrow> real \<Rightarrow> real \<Rightarrow> real \<Rightarrow> (string \<times> json) list" where
  "summary_items t m nfailed ntotal =
     [(''avg_execution_time'', JNum t), (''memory_usage'', JNum m),
      (''successful_benchmarks'', JNum (ntotal - nfailed)),
      (''total_benchmarks'', JNum ntotal), (''failed_benchmarks'', JNum nfailed)]"

definition summary_of :: "real \<Rightarrow> real \<Rightarrow> real \<Rightarrow> real \<Rightarrow> json" where
  "summary_of t m nfailed ntotal = JObj (summary_items t m nfailed ntotal)"

definition default_perf_thresholds :: perf_thresholds where
  "default_perf_thresholds = \<lparr>execution_time_ms = 1000, memory_usage_mb = 100,
     regression_threshold_percent = 10, max_failed_benchmarks = 0\<rparr>"


section \<open>Facts about the helpers\<close>

lemmas py_defs =
  dict_get_def py_gt_def py_lt_def py_sub_def py_truediv_def py_max1_def mean_def
  is_success_def is_failure_def metric_of_def

lemma and_then_Inr_iff:
  "and_then m f = Inr y \<longleftrightarrow> (\<exists>x. m = Inr x \<and> f x = Inr y)"
  by (cases m) auto

lemma and_then_Inl_iff:
  "and_then m f = Inl e \<longleftrightarrow> m = Inl e \<or> (\<exists>x. m = Inr x \<and> f x = Inl e)"
  by (cases m) auto

lemma filter_e_Inr_iff:
  "filter_e p xs = Inr ys \<longleftrightarrow>
     (\<forall>x \<in> set xs. \<exists>b. p x = Inr b) \<and> ys = filter (\<lambda>x. p x = Inr True) xs"
proof (induction xs arbitrary: ys)
  case Nil
  show ?case by auto
next
  case (Cons x xs)
  show ?case
  proof (cases "p x")
    case (Inl e)
    then show ?thesis by auto
  next
    case (Inr b)
    show ?thesis
    proof (cases "filter_e p xs")
      case (Inl e)
      with Inr Cons.IH show ?thesis by auto
    next
      case r: (Inr zs)
      with Inr Cons.IH [of zs] show ?thesis by auto
    qed
  qed
qed

lemma py_truediv_nonzero:
  "y \<noteq> 0 \<Longrightarrow> py_truediv a (JNum y) \<noteq> Inl ZeroDivisionError"
  by (simp add: py_truediv_def split: option.splits)

lemma mean_not_zero_division: "mean vs \<noteq> Inl ZeroDivisionError"
proof -
  have "nums_of ws \<noteq> Inl ZeroDivisionError" for ws
    by (induction ws) (auto simp: and_then_Inl_iff split: option.splits)
  then show ?thesis
    by (auto simp: mean_def and_then_Inl_iff)
qed

lemma filter_e_error:
  "filter_e p xs = Inl e \<Longrightarrow> \<exists>x \<in> set xs. p x = Inl e"
  by (induction xs) (auto simp: and_then_Inl_iff)

lemma map_e_error:
  "map_e f xs = Inl e \<Longrightarrow> \<exists>x \<in> set xs. f x = Inl e"
  by (induction xs) (auto simp: and_then_Inl_iff)

lemma py_get_error: "py_get r k d = Inl e \<Longrightarrow> e = AttributeError"
  by (cases r) auto

lemma extract_metrics_not_zero_division:
  "extract_metrics data \<noteq> Inl ZeroDivisionError"
proof (cases data)
  case (JArr rs)
  have s: "filter_e is_success rs \<noteq> Inl ZeroDivisionError"
    by (auto dest!: filter_e_error py_get_error simp: is_success_def and_then_Inl_iff)
  have f: "filter_e is_failure rs \<noteq> Inl ZeroDivisionError"
    by (auto dest!: filter_e_error py_get_error simp: is_failure_def and_then_Inl_iff)
  have m: "map_e (metric_of k) ys \<noteq> Inl ZeroDivisionError" for k ys
    by (auto dest!: map_e_error py_get_error simp: metric_of_def and_then_Inl_iff)
  have d: "rs \<noteq> [] \<Longrightarrow> py_truediv a (JNum (real (length rs))) \<noteq> Inl ZeroDivisionError" for a
    by (rule py_truediv_nonzero) simp
  show ?thesis
    using s f m d mean_not_zero_division
    by (auto simp: JArr extract_metrics_def and_then_Inl_iff split: if_splits)
next
  case (JObj kv)
  have "py_max1 a = Inr d \<Longrightarrow> d \<noteq> 0" for a d
    by (auto simp: py_max1_def split: option.splits if_splits)
  then have "py_max1 a = Inr d \<Longrightarrow> py_truediv b (JNum d) \<noteq> Inl ZeroDivisionError" for a b d
    using py_truediv_nonzero by blast
  moreover have "py_max1 a \<noteq> Inl ZeroDivisionError" for a
    by (auto simp: py_max1_def split: option.splits)
  ultimately show ?thesis
    by (auto simp: JObj extract_metrics_def and_then_Inl_iff)
qed (simp_all add: extract_metrics_def)

lemma detect_regression_not_zero_division:
  "detect_regression th b c \<noteq> Inl ZeroDivisionError"
proof
  assume a: "detect_regression th b c = Inl ZeroDivisionError"
  from a extract_metrics_not_zero_division [of b] extract_metrics_not_zero_division [of c]
  show False
    unfolding detect_regression_def
    by (auto simp: and_then_Inl_iff Let_def py_lt_def py_gt_def py_sub_def py_truediv_def
        split: if_splits option.splits)
qed

lemma compare_performance_not_zero_division:
  "compare_performance th b c \<noteq> Inl ZeroDivisionError"
proof
  assume a: "compare_performance th b c = Inl ZeroDivisionError"
  from a extract_metrics_not_zero_division [of b] extract_metrics_not_zero_division [of c]
  show False
    unfolding compare_performance_def
    by (auto simp: and_then_Inl_iff Let_def py_lt_def py_gt_def py_sub_def py_truediv_def
        split: if_splits option.splits)
qed

lemma guarded_change_Inr:
  "(if positive
    then and_then (py_sub cur base) (\<lambda>d. and_then (py_truediv (JNum d) base) (\<lambda>q. Inr (q * 100)))
    else Inr 0) = Inr x
   \<Longrightarrow> py_gt base 0 = Inr positive
   \<Longrightarrow> \<exists>bv. num_of base = Some bv \<and>
         (if bv > 0 then \<exists>cv. num_of cur = Some cv \<and> x = (cv - bv) / bv * 100 else x = 0)"
  by (auto simp: and_then_Inr_iff py_gt_def py_sub_def py_truediv_def
      split: option.splits if_splits)

lemma detect_regression_result:
  assumes "extract_metrics baseline_data = Inr (bt, bmem, bfr, bs, btot)"
    and "extract_metrics current_data = Inr (ct, cmem, cfr, cs, ctot)"
    and "py_lt cs (real_of_int (min_benchmarks th)) = Inr False"
    and "detect_regression th baseline_data current_data = Inr r"
  shows "\<exists>tv mv.
      (if tv > 0 then \<exists>cv. num_of ct = Some cv \<and> execution_time_change r = (cv - tv) / tv * 100
       else execution_time_change r = 0)
    \<and> (if mv > 0 then \<exists>cv. num_of cmem = Some cv \<and> memory_change r = (cv - mv) / mv * 100
       else memory_change r = 0)
    \<and> num_of bt = Some tv \<and> num_of bmem = Some mv
    \<and> failure_rate_change r = cfr - bfr
    \<and> execution_time_regression r = (execution_time_change r > execution_time_percent th)
    \<and> memory_regression r = (memory_change r > memory_usage_percent th)
    \<and> failure_rate_regression r = (failure_rate_change r > failure_rate_increase th / 100)
    \<and> has_regression r =
        (execution_time_regression r \<or> memory_regression r \<or> failure_rate_regression r)
    \<and> recommendations r = recommendations_in_order th r"
proof -
  from assms obtain tp tc mp mc where
    tp: "py_gt bt 0 = Inr tp"
    and tc: "(if tp
      then and_then (py_sub ct bt) (\<lambda>d. and_then (py_truediv (JNum d) bt) (\<lambda>q. Inr (q * 100)))
      else Inr 0) = Inr tc"
    and mp: "py_gt bmem 0 = Inr mp"
    and mc: "(if mp
      then and_then (py_sub cmem bmem) (\<lambda>d. and_then (py_truediv (JNum d) bmem) (\<lambda>q. Inr (q * 100)))
      else Inr 0) = Inr mc"
    and r: "r = \<lparr>has_regression = (tc > execution_time_percent th \<or> mc > memory_usage_percent th
                    \<or> cfr - bfr > failure_rate_increase th / 100),
             execution_time_regression = (tc > execution_time_percent th),
             memory_regression = (mc > memory_usage_percent th),
             failure_rate_regression = (cfr - bfr > failure_rate_increase th / 100),
             execution_time_change = tc, memory_change = mc, failure_rate_change = cfr - bfr,
             recommendations =
               (if tc > execution_time_percent th
                then [ExecutionTimeIncreased tc (execution_time_percent th)] else []) @
               (if mc > memory_usage_percent th
                then [MemoryUsageIncreased mc (memory_usage_percent th)] else []) @
               (if cfr - bfr > failure_rate_increase th / 100
                then [FailureRateIncreased (cfr - bfr) (failure_rate_increase th)] else []) @
               (if tc > execution_time_percent th \<or> mc > memory_usage_percent th
                    \<or> cfr - bfr > failure_rate_increase th / 100
                then [] else [NoSignificantRegression])\<rparr>"
    unfolding detect_regression_def
    by (auto simp: and_then_Inr_iff Let_def)
  from guarded_change_Inr [OF tc tp] obtain tv where
    tv: "num_of bt = Some tv"
      "if tv > 0 then \<exists>cv. num_of ct = Some cv \<and> tc = (cv - tv) / tv * 100 else tc = 0"
    by blast
  from guarded_change_Inr [OF mc mp] obtain mv where
    mv: "num_of bmem = Some mv"
      "if mv > 0 then \<exists>cv. num_of cmem = Some cv \<and> mc = (cv - mv) / mv * 100 else mc = 0"
    by blast
  show ?thesis
    apply (rule exI [of _ tv], rule exI [of _ mv])
    using tv mv by (auto simp: r recommendations_in_order_def split: if_splits)
qed

lemma all_failed_filters:
  assumes "list_all (\<lambda>r. is_failure r = Inr True) rs"
  shows "filter_e is_success rs = Inr []" and "filter_e is_failure rs = Inr rs"
proof -
  have each: "is_success x = Inr False \<and> is_failure x = Inr True" if "x \<in> set rs" for x
    using assms that
    by (cases x) (auto simp: list_all_iff is_failure_def is_success_def dest: bspec [where x = x])
  show "filter_e is_success rs = Inr []"
    using each by (auto simp: filter_e_Inr_iff filter_empty_conv)
  show "filter_e is_failure rs = Inr rs"
    using each by (auto simp: filter_e_Inr_iff filter_id_conv)
qed

lemma extract_metrics_all_failed:
  assumes "list_all (\<lambda>r. is_failure r = Inr True) rs"
  shows "extract_metrics (JArr rs) = Inr (JNum 0, JNum 0, 1, JNum 0, JNum (real (length rs)))"
  by (simp add: extract_metrics_def all_failed_filters [OF assms])

lemma is_number_iff: "is_number v \<longleftrightarrow> num_of v \<noteq> None"
  by (cases v) auto

lemma is_success_Inr_iff:
  "is_success r = Inr b \<longleftrightarrow>
     (\<exists>kv. r = JObj kv \<and> b = truthy (dict_get kv ''success'' (JBool False)))"
  by (cases r) (auto simp: is_success_def)

lemma is_failure_Inr_iff:
  "is_failure r = Inr b \<longleftrightarrow>
     (\<exists>kv. r = JObj kv \<and> b = (\<not> truthy (dict_get kv ''success'' (JBool False))))"
  by (cases r) (auto simp: is_failure_def)

lemma metric_of_Inr_iff:
  "metric_of k r = Inr v \<longleftrightarrow>
     (\<exists>kv m. r = JObj kv \<and> dict_get kv ''metrics'' (JObj []) = JObj m
        \<and> v = dict_get m k (JNum 0))"
proof (cases r)
  case (JObj kv)
  then show ?thesis
    by (cases "dict_get kv ''metrics'' (JObj [])") (auto simp: metric_of_def)
qed (auto simp: metric_of_def)

lemma nums_of_returns_iff:
  "(\<exists>xs. nums_of vs = Inr xs) \<longleftrightarrow> (\<forall>v \<in> set vs. is_number v)"
  by (induction vs) (auto simp: and_then_Inr_iff is_number_iff split: option.splits)

lemma mean_returns_iff:
  "(\<exists>x. mean vs = Inr x) \<longleftrightarrow> vs \<noteq> [] \<and> (\<forall>v \<in> set vs. is_number v)"
  using nums_of_returns_iff [of vs] by (auto simp: mean_def and_then_Inr_iff)

lemma map_e_length: "map_e f xs = Inr ys \<Longrightarrow> length ys = length xs"
  by (induction xs arbitrary: ys) (auto simp: and_then_Inr_iff)

lemma map_e_all_iff:
  "(\<exists>ys. map_e f xs = Inr ys \<and> (\<forall>y \<in> set ys. Q y)) \<longleftrightarrow>
     (\<forall>x \<in> set xs. \<exists>y. f x = Inr y \<and> Q y)"
  by (induction xs) (auto simp: and_then_Inr_iff)

lemma metric_mean_returns_iff:
  "(\<exists>vs x. map_e (metric_of k) xs = Inr vs \<and> mean vs = Inr x) \<longleftrightarrow>
     xs \<noteq> [] \<and> (\<forall>r \<in> set xs. \<exists>v. metric_of k r = Inr v \<and> is_number v)"
proof
  assume "\<exists>vs x. map_e (metric_of k) xs = Inr vs \<and> mean vs = Inr x"
  then obtain vs x where m: "map_e (metric_of k) xs = Inr vs" and "mean vs = Inr x" by blast
  then have ne: "vs \<noteq> []" and num: "\<forall>v \<in> set vs. is_number v"
    using mean_returns_iff [of vs] by blast+
  from m ne have "xs \<noteq> []" by (auto dest: map_e_length)
  moreover from m num have "\<forall>r \<in> set xs. \<exists>v. metric_of k r = Inr v \<and> is_number v"
    using map_e_all_iff [of "metric_of k" xs is_number] by blast
  ultimately show "xs \<noteq> [] \<and> (\<forall>r \<in> set xs. \<exists>v. metric_of k r = Inr v \<and> is_number v)"
    by blast
next
  assume a: "xs \<noteq> [] \<and> (\<forall>r \<in> set xs. \<exists>v. metric_of k r = Inr v \<and> is_number v)"
  then obtain vs where m: "map_e (metric_of k) xs = Inr vs" and num: "\<forall>v \<in> set vs. is_number v"
    using map_e_all_iff [of "metric_of k" xs is_number] by blast
  from m a have "vs \<noteq> []" by (auto dest: map_e_length)
  with num obtain x where "mean vs = Inr x"
    using mean_returns_iff [of vs] by blast
  with m show "\<exists>vs x. map_e (metric_of k) xs = Inr vs \<and> mean vs = Inr x" by blast
qed

lemma readable_record_iff:
  "readable_record r \<longleftrightarrow>
     (\<exists>b. is_success r = Inr b \<and>
        (b \<longrightarrow> (\<exists>v. metric_of ''executionTime'' r = Inr v \<and> is_number v)
            \<and> (\<exists>v. metric_of ''memoryUsage'' r = Inr v \<and> is_number v)))"
proof (cases r)
  case (JObj kv)
  show ?thesis
    by (cases "dict_get kv ''metrics'' (JObj [])")
      (auto simp: JObj is_success_Inr_iff metric_of_Inr_iff)
qed (auto simp: is_success_Inr_iff)

lemma extract_list_returns_iff:
  "(\<exists>m. extract_metrics (JArr rs) = Inr m) \<longleftrightarrow> list_all readable_record rs"
proof
  assume "\<exists>m. extract_metrics (JArr rs) = Inr m"
  then obtain S F where fs: "filter_e is_success rs = Inr S"
    and ff: "filter_e is_failure rs = Inr F"
    and rest: "S = [] \<or> (\<exists>ets mus a b.
        map_e (metric_of ''executionTime'') S = Inr ets
      \<and> map_e (metric_of ''memoryUsage'') S = Inr mus
      \<and> (if ets \<noteq> [] then mean ets else Inr 0) = Inr a
      \<and> (if mus \<noteq> [] then and_then (mean mus) (\<lambda>m. Inr (m / (1024 * 1024))) else Inr 0) = Inr b)"
    by (auto simp: extract_metrics_def and_then_Inr_iff split: if_splits)
  from fs have all: "\<forall>x \<in> set rs. \<exists>b. is_success x = Inr b"
    and S: "S = filter (\<lambda>x. is_success x = Inr True) rs"
    by (simp_all add: filter_e_Inr_iff)
  have "readable_record r" if r: "r \<in> set rs" for r
  proof -
    from all r obtain b where b: "is_success r = Inr b" by blast
    have "(\<exists>v. metric_of ''executionTime'' r = Inr v \<and> is_number v)
        \<and> (\<exists>v. metric_of ''memoryUsage'' r = Inr v \<and> is_number v)" if b
    proof -
      from \<open>b\<close> b r S have rS: "r \<in> set S" by simp
      then have "S \<noteq> []" by auto
      with rest obtain ets mus a c where
        e: "map_e (metric_of ''executionTime'') S = Inr ets"
        and m: "map_e (metric_of ''memoryUsage'') S = Inr mus"
        and ea: "(if ets \<noteq> [] then mean ets else Inr 0) = Inr a"
        and mb: "(if mus \<noteq> [] then and_then (mean mus) (\<lambda>m. Inr (m / (1024 * 1024))) else Inr 0) = Inr c"
        by blast
      from e m \<open>S \<noteq> []\<close> have "ets \<noteq> []" "mus \<noteq> []" by (auto dest: map_e_length)
      with ea mb obtain c' where "mean ets = Inr a" "mean mus = Inr c'"
        by (auto simp: and_then_Inr_iff)
      with e m have
        "\<forall>r \<in> set S. \<exists>v. metric_of ''executionTime'' r = Inr v \<and> is_number v"
        "\<forall>r \<in> set S. \<exists>v. metric_of ''memoryUsage'' r = Inr v \<and> is_number v"
        using metric_mean_returns_iff [of "''executionTime''" S]
          metric_mean_returns_iff [of "''memoryUsage''" S] by blast+
      with rS show ?thesis by blast
    qed
    with b show ?thesis by (auto simp: readable_record_iff)
  qed
  then show "list_all readable_record rs" by (simp add: list_all_iff)
next
  assume ra: "list_all readable_record rs"
  define S where "S = filter (\<lambda>x. is_success x = Inr True) rs"
  define F where "F = filter (\<lambda>x. is_failure x = Inr True) rs"
  from ra have each: "\<exists>b. is_success r = Inr b \<and>
        (b \<longrightarrow> (\<exists>v. metric_of ''executionTime'' r = Inr v \<and> is_number v)
            \<and> (\<exists>v. metric_of ''memoryUsage'' r = Inr v \<and> is_number v))"
    if "r \<in> set rs" for r
    using that by (simp add: list_all_iff readable_record_iff)
  then have fs: "filter_e is_success rs = Inr S"
    unfolding S_def filter_e_Inr_iff by blast
  have "\<exists>b. is_failure r = Inr b" if "r \<in> set rs" for r
    using each [OF that] by (auto simp: is_success_Inr_iff is_failure_Inr_iff)
  then have ff: "filter_e is_failure rs = Inr F"
    unfolding F_def filter_e_Inr_iff by blast
  show "\<exists>m. extract_metrics (JArr rs) = Inr m"
  proof (cases "S = []")
    case True
    with fs ff show ?thesis by (simp add: extract_metrics_def)
  next
    case False
    have inS: "(\<exists>v. metric_of ''executionTime'' r = Inr v \<and> is_number v)
            \<and> (\<exists>v. metric_of ''memoryUsage'' r = Inr v \<and> is_number v)" if "r \<in> set S" for r
      using that each [of r] by (auto simp: S_def)
    from False inS obtain ets a where
      e: "map_e (metric_of ''executionTime'') S = Inr ets" "mean ets = Inr a"
      using metric_mean_returns_iff [of "''executionTime''" S] by blast
    from False inS obtain mus c where
      m: "map_e (metric_of ''memoryUsage'') S = Inr mus" "mean mus = Inr c"
      using metric_mean_returns_iff [of "''memoryUsage''" S] by blast
    from e m have ne: "ets \<noteq> []" "mus \<noteq> []"
      using mean_returns_iff by blast+
    from False have "rs \<noteq> []" by (auto simp: S_def)
    then have d: "py_truediv (JNum (real (length F))) (JNum (real (length rs)))
        = Inr (real (length F) / real (length rs))"
      by (simp add: py_truediv_def)
    from fs ff False e m ne d \<open>rs \<noteq> []\<close> show ?thesis
      by (simp add: extract_metrics_def)
  qed
qed

lemma extract_summary_returns_iff:
  "(\<exists>m. extract_metrics (JObj kv) = Inr m) \<longleftrightarrow> readable (JObj kv)"
  by (auto simp: extract_metrics_def and_then_Inr_iff py_max1_def py_truediv_def is_number_iff
      split: option.splits)

text \<open>
  \<^verbatim>\<open>compare_performance\<close> repeats the code of \<^verbatim>\<open>detect_regression\<close>: whenever it
  returns, so does the detector, with the same verdict, changes and recommendations, and
  the detailed comparison, when there is one, holds the detector's flags.
\<close>

lemma compare_performance_agrees:
  assumes a: "compare_performance th b c = Inr cr"
  shows "\<exists>r. detect_regression th b c = Inr r
       \<and> cmp_has_regression cr = has_regression r
       \<and> cmp_execution_time_change cr = execution_time_change r
       \<and> cmp_memory_change cr = memory_change r
       \<and> cmp_failure_rate_change cr = failure_rate_change r
       \<and> cmp_recommendations cr = recommendations r
       \<and> (\<forall>d. detailed_comparison cr = Some d \<longrightarrow>
             d_changes d = (execution_time_change r, memory_change r, failure_rate_change r)
           \<and> d_regressions d =
               (execution_time_regression r, memory_regression r, failure_rate_regression r))"
proof -
  from a obtain bt bmem bfr bs btot ct cmem cfr cs ctot too_few where
    b: "extract_metrics b = Inr (bt, bmem, bfr, bs, btot)"
    and c: "extract_metrics c = Inr (ct, cmem, cfr, cs, ctot)"
    and lt: "py_lt cs (real_of_int (min_benchmarks th)) = Inr too_few"
    unfolding compare_performance_def by (auto simp: and_then_Inr_iff)
  show ?thesis
  proof (cases too_few)
    case True
    with a b c lt show ?thesis
      by (simp add: compare_performance_def detect_regression_def) auto
  next
    case False
    define change where "change cur base =
        and_then (py_gt base 0) (\<lambda>positive.
          if positive
          then and_then (py_sub cur base) (\<lambda>d.
               and_then (py_truediv (JNum d) base) (\<lambda>q. Inr (q * 100)))
          else Inr 0)" for cur base
    have assoc: "and_then (py_gt base 0) (\<lambda>positive.
        and_then (if positive
               then and_then (py_sub cur base) (\<lambda>d.
                    and_then (py_truediv (JNum d) base) (\<lambda>q. Inr (q * 100)))
               else Inr 0) k) = and_then (change cur base) k" for cur base
      and k :: "real \<Rightarrow> py_error + 'x"
      by (cases "py_gt base 0") (simp_all add: change_def)
    from a b c lt False obtain tc mc where
      tc: "change ct bt = Inr tc" and mc: "change cmem bmem = Inr mc"
      unfolding compare_performance_def
      by (auto simp: assoc and_then_Inr_iff)
    from a b c lt False tc mc show ?thesis
      unfolding compare_performance_def detect_regression_def
      by (simp add: assoc Let_def) auto
  qed
qed

lemma is_success_error: "is_success r = Inl e \<Longrightarrow> e = AttributeError"
  by (cases r) (auto simp: is_success_def)

lemma is_failure_error: "is_failure r = Inl e \<Longrightarrow> e = AttributeError"
  by (cases r) (auto simp: is_failure_def)

lemma metric_of_error: "metric_of k r = Inl e \<Longrightarrow> e = AttributeError"
  by (auto simp: metric_of_def and_then_Inl_iff dest: py_get_error)

lemma nums_of_error: "nums_of vs = Inl e \<Longrightarrow> e = TypeError"
  by (induction vs) (auto simp: and_then_Inl_iff split: option.splits)

lemma mean_error: "vs \<noteq> [] \<Longrightarrow> mean vs = Inl e \<Longrightarrow> e = TypeError"
  by (auto simp: mean_def and_then_Inl_iff dest: nums_of_error)

lemma py_truediv_error: "y \<noteq> 0 \<Longrightarrow> py_truediv a (JNum y) = Inl e \<Longrightarrow> e = TypeError"
  by (auto simp: py_truediv_def split: option.splits)

lemma py_max1_error: "py_max1 a = Inl e \<Longrightarrow> e = TypeError"
  by (auto simp: py_max1_def split: option.splits)

lemma py_max1_positive: "py_max1 a = Inr d \<Longrightarrow> d \<noteq> 0"
  by (auto simp: py_max1_def split: option.splits if_splits)

lemma extract_metrics_error:
  assumes "extract_metrics data = Inl e"
  shows "e = AttributeError \<or> e = TypeError"
proof (rule ccontr)
  assume "\<not> (e = AttributeError \<or> e = TypeError)"
  then have na: "e \<noteq> AttributeError" and nt: "e \<noteq> TypeError" by simp_all
  show False
  proof (cases data)
    case (JArr rs)
    have s: "filter_e is_success rs \<noteq> Inl e"
      using na by (auto dest!: filter_e_error is_success_error)
    have f: "filter_e is_failure rs \<noteq> Inl e"
      using na by (auto dest!: filter_e_error is_failure_error)
    have m: "map_e (metric_of k) ys \<noteq> Inl e" for k ys
      using na by (auto dest!: map_e_error metric_of_error)
    have mn: "vs \<noteq> [] \<Longrightarrow> mean vs \<noteq> Inl e" for vs
      using nt by (auto dest: mean_error)
    have d: "rs \<noteq> [] \<Longrightarrow> py_truediv a (JNum (real (length rs))) \<noteq> Inl e" for a
      using nt py_truediv_error [of "real (length rs)" a e] by auto
    show False
      using assms s f m mn d
      by (auto simp: JArr extract_metrics_def and_then_Inl_iff split: if_splits)
  next
    case (JObj kv)
    have mx: "py_max1 a \<noteq> Inl e" for a
      using nt by (auto dest: py_max1_error)
    have dv: "py_max1 a = Inr d \<Longrightarrow> py_truediv b (JNum d) \<noteq> Inl e" for a b d
      using nt py_max1_positive [of a d] py_truediv_error [of d b e] by auto
    show False
      using assms mx dv
      by (auto simp: JObj extract_metrics_def and_then_Inl_iff)
  qed (use assms in \<open>simp_all add: extract_metrics_def\<close>)
qed

lemma is_success_succeeded: "is_success r = Inr True \<longleftrightarrow> succeeded r"
  by (cases r) (auto simp: is_success_def)

lemma is_failure_not_succeeded:
  "readable_record r \<Longrightarrow> is_failure r = Inr True \<longleftrightarrow> \<not> succeeded r"
  by (cases r) (auto simp: is_failure_def)

lemma readable_record_metric:
  assumes "readable_record r" and "succeeded r"
    and "k = ''executionTime'' \<or> k = ''memoryUsage''"
  shows "\<exists>v. metric_of k r = Inr v \<and> num_of v = Some (metric_value k r)"
proof (cases r)
  case (JObj kv)
  with assms(1,2) obtain m where m: "dict_get kv ''metrics'' (JObj []) = JObj m"
    and n: "is_number (dict_get m ''executionTime'' (JNum 0))"
      "is_number (dict_get m ''memoryUsage'' (JNum 0))"
    by (cases "dict_get kv ''metrics'' (JObj [])") auto
  from assms(3) n have "is_number (dict_get m k (JNum 0))" by auto
  then obtain x where "num_of (dict_get m k (JNum 0)) = Some x"
    by (auto simp: is_number_iff)
  then show ?thesis
    by (simp add: JObj m metric_of_def number_def)
qed (use assms in auto)

lemma map_e_numbers:
  "\<forall>r \<in> set xs. \<exists>v. f r = Inr v \<and> num_of v = Some (g r)
   \<Longrightarrow> \<exists>vs. map_e f xs = Inr vs \<and> nums_of vs = Inr (map g xs) \<and> length vs = length xs"
  by (induction xs) (auto simp: and_then_Inr_iff)

lemma metric_mean_value:
  assumes "\<forall>r \<in> set xs. \<exists>v. metric_of k r = Inr v \<and> num_of v = Some (metric_value k r)"
    and "xs \<noteq> []"
  shows "\<exists>vs. map_e (metric_of k) xs = Inr vs \<and> vs \<noteq> []
          \<and> mean vs = Inr (average (map (metric_value k) xs))"
proof -
  from map_e_numbers [OF assms(1)] obtain vs where
    vs: "map_e (metric_of k) xs = Inr vs" "nums_of vs = Inr (map (metric_value k) xs)"
      "length vs = length xs"
    by blast
  from vs(3) assms(2) have "vs \<noteq> []" by auto
  with vs show ?thesis by (auto simp: mean_def average_def)
qed

lemma extract_list_value:
  assumes ra: "list_all readable_record rs"
  shows "extract_metrics (JArr rs) = Inr (expected_metrics (JArr rs))"
proof -
  let ?S = "filter succeeded rs"
  let ?F = "filter (\<lambda>r. \<not> succeeded r) rs"
  from ra have each: "readable_record r" if "r \<in> set rs" for r
    using that by (simp add: list_all_iff)
  have "\<exists>b. is_success r = Inr b" if "r \<in> set rs" for r
    using each [OF that] by (cases r) (auto simp: is_success_def)
  then have fs: "filter_e is_success rs = Inr ?S"
    by (simp add: filter_e_Inr_iff is_success_succeeded)
  have "\<exists>b. is_failure r = Inr b" if "r \<in> set rs" for r
    using each [OF that] by (cases r) (auto simp: is_failure_def)
  moreover have "filter (\<lambda>x. is_failure x = Inr True) rs = ?F"
    using each by (auto intro: filter_cong simp: is_failure_not_succeeded)
  ultimately have ff: "filter_e is_failure rs = Inr ?F"
    by (simp add: filter_e_Inr_iff)
  show ?thesis
  proof (cases "?S = []")
    case True
    with fs ff show ?thesis by (simp add: extract_metrics_def)
  next
    case False
    have inS: "\<exists>v. metric_of k r = Inr v \<and> num_of v = Some (metric_value k r)"
      if "r \<in> set ?S" "k = ''executionTime'' \<or> k = ''memoryUsage''" for r k
      using that each [of r] by (auto intro: readable_record_metric)
    from metric_mean_value [of ?S "''executionTime''"] inS False obtain ets where
      e: "map_e (metric_of ''executionTime'') ?S = Inr ets" "ets \<noteq> []"
        "mean ets = Inr (average (map (metric_value ''executionTime'') ?S))"
      by blast
    from metric_mean_value [of ?S "''memoryUsage''"] inS False obtain mus where
      m: "map_e (metric_of ''memoryUsage'') ?S = Inr mus" "mus \<noteq> []"
        "mean mus = Inr (average (map (metric_value ''memoryUsage'') ?S))"
      by blast
    from False have ne: "rs \<noteq> []" by auto
    then have d: "py_truediv (JNum (real (length ?F))) (JNum (real (length rs)))
        = Inr (real (length ?F) / real (length rs))"
      by (simp add: py_truediv_def)
    from fs ff False e m ne d show ?thesis
      by (simp add: extract_metrics_def)
  qed
qed

lemma extract_summary_value:
  assumes "readable (JObj kv)"
  shows "extract_metrics (JObj kv) = Inr (expected_metrics (JObj kv))"
proof -
  from assms obtain t f where
    t: "num_of (dict_get kv ''total_benchmarks'' (JNum 1)) = Some t"
    and f: "num_of (dict_get kv ''failed_benchmarks'' (JNum 0)) = Some f"
    by (auto simp: is_number_iff)
  have "py_max1 (dict_get kv ''total_benchmarks'' (JNum 1)) = Inr (max t 1)"
    by (simp add: py_max1_def t max_def)
  moreover have "py_truediv (dict_get kv ''failed_benchmarks'' (JNum 0)) (JNum (max t 1))
      = Inr (f / max t 1)"
    by (simp add: py_truediv_def f max_def)
  ultimately show ?thesis
    by (simp add: extract_metrics_def number_def t f)
qed

lemma extract_metrics_value:
  "readable data \<Longrightarrow> extract_metrics data = Inr (expected_metrics data)"
  by (cases data) (simp_all add: extract_list_value extract_summary_value, simp_all add: extract_metrics_def)

lemma extract_metrics_returns_iff:
  "(\<exists>m. extract_metrics data = Inr m) \<longleftrightarrow> readable data"
proof (cases data)
  case (JArr rs)
  then show ?thesis using extract_list_returns_iff [of rs] by simp
next
  case (JObj kv)
  then show ?thesis using extract_summary_returns_iff [of kv] by simp
qed (simp_all add: extract_metrics_def)


section \<open>The insufficient-data short-circuit\<close>

text \<open>
  Claim C3. Whenever the successful count of the current metrics is below
  \<^verbatim>\<open>min_benchmarks\<close>, \<^verbatim>\<open>detect_regression\<close> returns at once: \<^verbatim>\<open>has_regression\<close> is true,
  the three per-metric flags are false, the three changes are 0.0 and the only
  recommendation names the shortfall, whatever the other metric values and thresholds are.
  \<^verbatim>\<open>compare_performance\<close> returns the same verdict with an empty detailed comparison.
\<close>

theorem insufficient_data_short_circuit:
  assumes "extract_metrics baseline_data = Inr bm"
    and "extract_metrics current_data = Inr (ct, cmem, cfr, cs, ctot)"
    and "py_lt cs (real_of_int (min_benchmarks th)) = Inr True"
  shows "detect_regression th baseline_data current_data =
           Inr \<lparr>has_regression = True, execution_time_regression = False,
                memory_regression = False, failure_rate_regression = False,
                execution_time_change = 0, memory_change = 0, failure_rate_change = 0,
                recommendations = [InsufficientBenchmarks cs (min_benchmarks th)]\<rparr>
       \<and> compare_performance th baseline_data current_data =
           Inr \<lparr>cmp_has_regression = True, cmp_execution_time_change = 0,
                cmp_memory_change = 0, cmp_failure_rate_change = 0,
                cmp_recommendations = [InsufficientBenchmarks cs (min_benchmarks th)],
                detailed_comparison = None\<rparr>"
  using assms by (cases bm) (simp add: detect_regression_def compare_performance_def)

theorem insufficient_data_short_circuit_witness:
  "extract_metrics (summary_of 100 50 0 20) = Inr (JNum 100, JNum 50, 0, JNum 20, JNum 20)
   \<and> extract_metrics (JArr [benchmark_record True 1 1048576, benchmark_record True 2 1048576,
         benchmark_record True 3 1048576]) = Inr (JNum 2, JNum 1, 0, JNum 3, JNum 3)
   \<and> py_lt (JNum 3) (real_of_int (min_benchmarks default_thresholds)) = Inr True
   \<and> detect_regression default_thresholds (summary_of 100 50 0 20)
        (JArr [benchmark_record True 1 1048576, benchmark_record True 2 1048576,
               benchmark_record True 3 1048576]) =
       Inr \<lparr>has_regression = True, execution_time_regression = False,
            memory_regression = False, failure_rate_regression = False,
            execution_time_change = 0, memory_change = 0, failure_rate_change = 0,
            recommendations = [InsufficientBenchmarks (JNum 3) 5]\<rparr>"
proof -
  have b: "extract_metrics (summary_of 100 50 0 20) = Inr (JNum 100, JNum 50, 0, JNum 20, JNum 20)"
    by (simp add: extract_metrics_def summary_of_def summary_items_def py_defs)
  have c: "extract_metrics (JArr [benchmark_record True 1 1048576, benchmark_record True 2 1048576,
         benchmark_record True 3 1048576]) = Inr (JNum 2, JNum 1, 0, JNum 3, JNum 3)"
    by (simp add: extract_metrics_def benchmark_record_def py_defs)
  have l: "py_lt (JNum 3) (real_of_int (min_benchmarks default_thresholds)) = Inr True"
    by (simp add: py_lt_def default_thresholds_def)
  from insufficient_data_short_circuit [OF b c l] b c l show ?thesis
    by (simp add: default_thresholds_def)
qed


section \<open>The gate stops at the first failing check\<close>

text \<open>
  Claim C1 says that \<^verbatim>\<open>check_gate\<close> evaluates all four checks and reports every reason
  that applies. It does not: each failing check prints its line and returns at once. With
  the default gate (\<^verbatim>\<open>max_failure_rate\<close> 0.0), an average time of 2000 ms and 1 failure
  in 50 (rate 0.02), the only line printed is the one about the execution time, although
  the failure-rate check fails as well.
\<close>

theorem check_gate_skips_later_reasons:
  "check_gate default_gate (JObj (summary_items 2000 50 1 50)) = Inr ([FailExecutionTime], False)
   \<and> all_failure_reasons default_gate (summary_items 2000 50 1 50) =
        [FailExecutionTime, FailFailureRate (1 / 50) 0]"
  by (simp add: check_gate_def all_failure_reasons_def summary_items_def default_gate_def
        time_check_fails_def memory_check_fails_def summary_failure_rate_def
        regression_check_fails_def py_defs)

text \<open>
  Claim C1, amended. Whenever \<^verbatim>\<open>check_gate\<close> returns on a summary dict, its boolean
  is the conjunction of the four checks (time ceiling, memory ceiling, failure rate when
  there is at least one benchmark, regression flag), and it has printed exactly one
  verdict line: the reason of the first check that fails, in the order time, memory,
  failure rate, regression, or the pass line when none fails.
\<close>

theorem check_gate_first_failure:
  assumes "check_gate gate (JObj kv) = Inr (out, passed)"
  shows "passed = (\<not> time_check_fails gate kv \<and> \<not> memory_check_fails gate kv
                   \<and> \<not> failure_rate_check_fails gate kv \<and> \<not> regression_check_fails kv)
       \<and> out = (case all_failure_reasons gate kv of [] \<Rightarrow> [PassAllGates] | r # _ \<Rightarrow> [r])"
  using assms
  by (auto simp: check_gate_def all_failure_reasons_def
        time_check_fails_def memory_check_fails_def summary_failure_rate_def
        failure_rate_check_fails_def regression_check_fails_def
        py_gt_def py_truediv_def and_then_Inr_iff
      split: option.splits if_splits)

theorem check_gate_first_failure_witness:
  "check_gate default_gate (JObj (summary_items 500 50 1 50)) =
       Inr ([FailFailureRate (1 / 50) 0], False)
   \<and> False = (\<not> time_check_fails default_gate (summary_items 500 50 1 50)
       \<and> \<not> memory_check_fails default_gate (summary_items 500 50 1 50)
       \<and> \<not> failure_rate_check_fails default_gate (summary_items 500 50 1 50)
       \<and> \<not> regression_check_fails (summary_items 500 50 1 50))
   \<and> all_failure_reasons default_gate (summary_items 500 50 1 50) = [FailFailureRate (1 / 50) 0]"
proof -
  have run: "check_gate default_gate (JObj (summary_items 500 50 1 50)) =
       Inr ([FailFailureRate (1 / 50) 0], False)"
    by (simp add: check_gate_def summary_items_def default_gate_def py_defs)
  have all: "all_failure_reasons default_gate (summary_items 500 50 1 50) = [FailFailureRate (1 / 50) 0]"
    by (simp add: all_failure_reasons_def summary_items_def default_gate_def
        time_check_fails_def memory_check_fails_def summary_failure_rate_def
        regression_check_fails_def py_defs)
  from check_gate_first_failure [OF run] run all show ?thesis by simp
qed


section \<open>Missing input files\<close>

text \<open>
  Claim C5 says that a missing baseline file is not fatal for the regression check. In
  \<^verbatim>\<open>check-performance-regression.py\<close> it is: \<^verbatim>\<open>load_baseline\<close> prints a warning and
  returns \<^verbatim>\<open>None\<close>, and \<^verbatim>\<open>main\<close> then prints that it could not load the data and exits
  with status 1, although the current file is there and well formed.
\<close>

theorem missing_baseline_is_fatal:
  "main default_thresholds Missing (Parsed (summary_of 100 50 0 20)) =
     ([WarnBaselineNotFound, ErrorCouldNotLoad], Exit 1)"
  by (simp add: main_def summary_of_def)

text \<open>
  Claim C5, amended. \<^verbatim>\<open>main\<close> needs both files: when the baseline file is missing it
  prints the warning of \<^verbatim>\<open>load_baseline\<close>, what \<^verbatim>\<open>load_current\<close> prints, the line
  that the data could not be loaded, and exits with status 1; when the current file is
  missing it prints what \<^verbatim>\<open>load_baseline\<close> prints, the error of \<^verbatim>\<open>load_current\<close>, the
  same last line, and exits with status 1. In both cases no regression analysis runs and
  the line that rejects the build for a regression is not printed.
\<close>

theorem main_needs_both_files:
  "main th Missing current_file =
     (WarnBaselineNotFound # fst (load_current current_file) @ [ErrorCouldNotLoad], Exit 1)
   \<and> main th baseline_file Missing =
     (fst (load_baseline baseline_file) @ [ErrorCurrentNotFound, ErrorCouldNotLoad], Exit 1)
   \<and> BuildRejected \<notin> set (fst (main th baseline_file Missing))
   \<and> BuildRejected \<notin> set (fst (main th Missing current_file))"
  by (cases current_file; cases baseline_file) (simp_all add: main_def)


section \<open>A zero baseline\<close>

text \<open>
  Claim C6 says that with a baseline execution time of 0 the time flag is false. The
  change is 0.0 indeed, but the flag is the comparison of 0.0 with the threshold, and the
  command line accepts any float for it: with \<^verbatim>\<open>--threshold -1\<close>, a baseline time of 0
  and a current time of 100, the time regression flag is set with a change of 0.0.
\<close>

theorem negative_threshold_flags_zero_change:
  "detect_regression (default_thresholds\<lparr>execution_time_percent := - 1\<rparr>)
       (summary_of 0 50 0 20) (summary_of 100 50 0 20) =
     Inr \<lparr>has_regression = True, execution_time_regression = True,
          memory_regression = False, failure_rate_regression = False,
          execution_time_change = 0, memory_change = 0, failure_rate_change = 0,
          recommendations = [ExecutionTimeIncreased 0 (- 1)]\<rparr>"
  by (simp add: detect_regression_def extract_metrics_def summary_of_def summary_items_def
        default_thresholds_def py_defs)

text \<open>
  Claim C6, amended. \<^verbatim>\<open>detect_regression\<close> and \<^verbatim>\<open>compare_performance\<close> never raise
  \<^verbatim>\<open>ZeroDivisionError\<close>, whatever their inputs. When the short-circuit does not apply and
  the baseline execution time is 0, the execution-time change is 0.0 and the time flag is
  the truth value of \<^verbatim>\<open>0.0 > execution_time_percent\<close>, so it is false whenever that
  threshold is not negative; the same holds for memory with a baseline memory of 0.
\<close>

theorem zero_baseline_gives_zero_change:
  "detect_regression th baseline_data current_data \<noteq> Inl ZeroDivisionError
   \<and> compare_performance th baseline_data current_data \<noteq> Inl ZeroDivisionError
   \<and> (extract_metrics baseline_data = Inr (bt, bmem, bfr, bs, btot)
        \<and> extract_metrics current_data = Inr (ct, cmem, cfr, cs, ctot)
        \<and> py_lt cs (real_of_int (min_benchmarks th)) = Inr False
        \<and> detect_regression th baseline_data current_data = Inr r
      \<longrightarrow> (num_of bt = Some 0 \<longrightarrow>
             execution_time_change r = 0
             \<and> (execution_time_regression r \<longleftrightarrow> 0 > execution_time_percent th)
             \<and> (0 \<le> execution_time_percent th \<longrightarrow> \<not> execution_time_regression r))
        \<and> (num_of bmem = Some 0 \<longrightarrow>
             memory_change r = 0
             \<and> (memory_regression r \<longleftrightarrow> 0 > memory_usage_percent th)
             \<and> (0 \<le> memory_usage_percent th \<longrightarrow> \<not> memory_regression r)))"
proof (intro conjI impI)
  show "detect_regression th baseline_data current_data \<noteq> Inl ZeroDivisionError"
    by (rule detect_regression_not_zero_division)
  show "compare_performance th baseline_data current_data \<noteq> Inl ZeroDivisionError"
    by (rule compare_performance_not_zero_division)
next
  assume h: "extract_metrics baseline_data = Inr (bt, bmem, bfr, bs, btot)
        \<and> extract_metrics current_data = Inr (ct, cmem, cfr, cs, ctot)
        \<and> py_lt cs (real_of_int (min_benchmarks th)) = Inr False
        \<and> detect_regression th baseline_data current_data = Inr r"
  then have res: "\<exists>tv mv.
      (if tv > 0 then \<exists>cv. num_of ct = Some cv \<and> execution_time_change r = (cv - tv) / tv * 100
       else execution_time_change r = 0)
    \<and> (if mv > 0 then \<exists>cv. num_of cmem = Some cv \<and> memory_change r = (cv - mv) / mv * 100
       else memory_change r = 0)
    \<and> num_of bt = Some tv \<and> num_of bmem = Some mv
    \<and> execution_time_regression r = (execution_time_change r > execution_time_percent th)
    \<and> memory_regression r = (memory_change r > memory_usage_percent th)"
    using detect_regression_result [of baseline_data bt bmem bfr bs btot current_data ct cmem cfr cs ctot th r]
    by blast
  {
    assume z: "num_of bt = Some 0"
    with res show t0: "execution_time_change r = 0" by auto
    with res show "execution_time_regression r \<longleftrightarrow> 0 > execution_time_percent th" by auto
    then show "\<not> execution_time_regression r" if "0 \<le> execution_time_percent th"
      using that by simp
  }
  {
    assume z: "num_of bmem = Some 0"
    with res show m0: "memory_change r = 0" by auto
    with res show "memory_regression r \<longleftrightarrow> 0 > memory_usage_percent th" by auto
    then show "\<not> memory_regression r" if "0 \<le> memory_usage_percent th"
      using that by simp
  }
qed

theorem zero_baseline_gives_zero_change_witness:
  "extract_metrics (summary_of 0 0 0 20) = Inr (JNum 0, JNum 0, 0, JNum 20, JNum 20)
   \<and> extract_metrics (summary_of 100 50 0 20) = Inr (JNum 100, JNum 50, 0, JNum 20, JNum 20)
   \<and> py_lt (JNum 20) (real_of_int (min_benchmarks default_thresholds)) = Inr False
   \<and> detect_regression default_thresholds (summary_of 0 0 0 20) (summary_of 100 50 0 20) =
       Inr \<lparr>has_regression = False, execution_time_regression = False,
            memory_regression = False, failure_rate_regression = False,
            execution_time_change = 0, memory_change = 0, failure_rate_change = 0,
            recommendations = [NoSignificantRegression]\<rparr>
   \<and> num_of (JNum 0) = Some 0
   \<and> 0 \<le> execution_time_percent default_thresholds
   \<and> 0 \<le> memory_usage_percent default_thresholds"
proof -
  let ?r = "\<lparr>has_regression = False, execution_time_regression = False,
            memory_regression = False, failure_rate_regression = False,
            execution_time_change = 0, memory_change = 0, failure_rate_change = 0,
            recommendations = [NoSignificantRegression]\<rparr>"
  have b: "extract_metrics (summary_of 0 0 0 20) = Inr (JNum 0, JNum 0, 0, JNum 20, JNum 20)"
    by (simp add: extract_metrics_def summary_of_def summary_items_def py_defs)
  have c: "extract_metrics (summary_of 100 50 0 20) = Inr (JNum 100, JNum 50, 0, JNum 20, JNum 20)"
    by (simp add: extract_metrics_def summary_of_def summary_items_def py_defs)
  have l: "py_lt (JNum 20) (real_of_int (min_benchmarks default_thresholds)) = Inr False"
    by (simp add: py_lt_def default_thresholds_def)
  have d: "detect_regression default_thresholds (summary_of 0 0 0 20) (summary_of 100 50 0 20) = Inr ?r"
    by (simp add: detect_regression_def b c py_defs default_thresholds_def)
  have t: "0 \<le> execution_time_percent default_thresholds"
     "0 \<le> memory_usage_percent default_thresholds"
     "num_of (JNum 0) = Some 0"
    by (simp_all add: default_thresholds_def)
  from zero_baseline_gives_zero_change [of default_thresholds "summary_of 0 0 0 20"
      "summary_of 100 50 0 20" "JNum 0" "JNum 0" 0 "JNum 20" "JNum 20"
      "JNum 100" "JNum 50" 0 "JNum 20" "JNum 20" ?r] b c l d t
  show ?thesis by simp
qed


section \<open>Classification of the three metrics\<close>

text \<open>
  Claim C7 says that a negative change never sets a flag and that \<^verbatim>\<open>has_regression\<close> is
  the disjunction of the three flags. Neither holds for every input. With
  \<^verbatim>\<open>--threshold -100\<close>, a baseline time of 1000 ms and a current time of 500 ms give a
  change of -50.0, which exceeds the threshold, and the time flag is set. With the
  default thresholds and 3 successful benchmarks, \<^verbatim>\<open>has_regression\<close> is true while the
  three flags are false.
\<close>

theorem improvement_flagged_and_forced_regression:
  "detect_regression (default_thresholds\<lparr>execution_time_percent := - 100\<rparr>)
       (summary_of 1000 50 0 20) (summary_of 500 50 0 20) =
     Inr \<lparr>has_regression = True, execution_time_regression = True,
          memory_regression = False, failure_rate_regression = False,
          execution_time_change = - 50, memory_change = 0, failure_rate_change = 0,
          recommendations = [ExecutionTimeIncreased (- 50) (- 100)]\<rparr>
   \<and> detect_regression default_thresholds (summary_of 1000 50 0 20) (summary_of 500 50 0 3) =
     Inr \<lparr>has_regression = True, execution_time_regression = False,
          memory_regression = False, failure_rate_regression = False,
          execution_time_change = 0, memory_change = 0, failure_rate_change = 0,
          recommendations = [InsufficientBenchmarks (JNum 3) 5]\<rparr>"
  by (simp add: detect_regression_def extract_metrics_def summary_of_def summary_items_def
        default_thresholds_def py_defs)

text \<open>
  Claim C7, amended. When the short-circuit does not apply, each flag is the strict
  comparison of its change with its threshold (the failure-rate threshold divided by
  100), \<^verbatim>\<open>has_regression\<close> is the disjunction of the three flags, the failure-rate change
  is the difference of the two rates, and for a positive baseline the time and memory
  changes are the relative differences in percent. A negative change does not set its
  flag provided the threshold of that metric is not negative.
\<close>

theorem strict_threshold_classification:
  assumes "extract_metrics baseline_data = Inr (bt, bmem, bfr, bs, btot)"
    and "extract_metrics current_data = Inr (ct, cmem, cfr, cs, ctot)"
    and "py_lt cs (real_of_int (min_benchmarks th)) = Inr False"
    and "detect_regression th baseline_data current_data = Inr r"
  shows "(execution_time_regression r \<longleftrightarrow> execution_time_change r > execution_time_percent th)
     \<and> (memory_regression r \<longleftrightarrow> memory_change r > memory_usage_percent th)
     \<and> (failure_rate_regression r \<longleftrightarrow> failure_rate_change r > failure_rate_increase th / 100)
     \<and> (has_regression r \<longleftrightarrow>
          execution_time_regression r \<or> memory_regression r \<or> failure_rate_regression r)
     \<and> failure_rate_change r = cfr - bfr
     \<and> (\<forall>bv cv. num_of bt = Some bv \<and> num_of ct = Some cv \<and> bv > 0
          \<longrightarrow> execution_time_change r = (cv - bv) / bv * 100)
     \<and> (\<forall>bv cv. num_of bmem = Some bv \<and> num_of cmem = Some cv \<and> bv > 0
          \<longrightarrow> memory_change r = (cv - bv) / bv * 100)
     \<and> (0 \<le> execution_time_percent th \<and> execution_time_change r < 0
          \<longrightarrow> \<not> execution_time_regression r)
     \<and> (0 \<le> memory_usage_percent th \<and> memory_change r < 0 \<longrightarrow> \<not> memory_regression r)
     \<and> (0 \<le> failure_rate_increase th \<and> failure_rate_change r < 0
          \<longrightarrow> \<not> failure_rate_regression r)"
proof -
  from detect_regression_result [OF assms] obtain tv mv where res:
    "if tv > 0 then \<exists>cv. num_of ct = Some cv \<and> execution_time_change r = (cv - tv) / tv * 100
       else execution_time_change r = 0"
    "if mv > 0 then \<exists>cv. num_of cmem = Some cv \<and> memory_change r = (cv - mv) / mv * 100
       else memory_change r = 0"
    "num_of bt = Some tv" "num_of bmem = Some mv"
    "failure_rate_change r = cfr - bfr"
    "execution_time_regression r = (execution_time_change r > execution_time_percent th)"
    "memory_regression r = (memory_change r > memory_usage_percent th)"
    "failure_rate_regression r = (failure_rate_change r > failure_rate_increase th / 100)"
    "has_regression r =
        (execution_time_regression r \<or> memory_regression r \<or> failure_rate_regression r)"
    by blast
  have t: "execution_time_change r = (cv - bv) / bv * 100"
    if "num_of bt = Some bv" "num_of ct = Some cv" "bv > 0" for bv cv
    using res(1,3) that by auto
  have m: "memory_change r = (cv - bv) / bv * 100"
    if "num_of bmem = Some bv" "num_of cmem = Some cv" "bv > 0" for bv cv
    using res(2,4) that by auto
  have f: "\<not> failure_rate_regression r"
    if "0 \<le> failure_rate_increase th" "failure_rate_change r < 0"
  proof -
    from that have "failure_rate_change r < failure_rate_increase th / 100"
      by (simp add: less_le_trans)
    then show ?thesis using res(8) by simp
  qed
  show ?thesis
    using res(5-9) t m f by auto
qed

theorem strict_threshold_classification_witness:
  "extract_metrics (summary_of 1000 50 0 20) = Inr (JNum 1000, JNum 50, 0, JNum 20, JNum 20)
   \<and> extract_metrics (summary_of 500 50 0 20) = Inr (JNum 500, JNum 50, 0, JNum 20, JNum 20)
   \<and> py_lt (JNum 20) (real_of_int (min_benchmarks default_thresholds)) = Inr False
   \<and> detect_regression default_thresholds (summary_of 1000 50 0 20) (summary_of 500 50 0 20) =
       Inr \<lparr>has_regression = False, execution_time_regression = False,
            memory_regression = False, failure_rate_regression = False,
            execution_time_change = - 50, memory_change = 0, failure_rate_change = 0,
            recommendations = [NoSignificantRegression]\<rparr>
   \<and> num_of (JNum 1000) = Some 1000 \<and> num_of (JNum 500) = Some 500 \<and> (0::real) < 1000
   \<and> (500 - 1000) / 1000 * 100 = (- 50 :: real)
   \<and> 0 \<le> execution_time_percent default_thresholds"
proof -
  let ?r = "\<lparr>has_regression = False, execution_time_regression = False,
            memory_regression = False, failure_rate_regression = False,
            execution_time_change = - 50, memory_change = 0, failure_rate_change = 0,
            recommendations = [NoSignificantRegression]\<rparr>"
  have b: "extract_metrics (summary_of 1000 50 0 20) = Inr (JNum 1000, JNum 50, 0, JNum 20, JNum 20)"
    by (simp add: extract_metrics_def summary_of_def summary_items_def py_defs)
  have c: "extract_metrics (summary_of 500 50 0 20) = Inr (JNum 500, JNum 50, 0, JNum 20, JNum 20)"
    by (simp add: extract_metrics_def summary_of_def summary_items_def py_defs)
  have l: "py_lt (JNum 20) (real_of_int (min_benchmarks default_thresholds)) = Inr False"
    by (simp add: py_lt_def default_thresholds_def)
  have d: "detect_regression default_thresholds (summary_of 1000 50 0 20) (summary_of 500 50 0 20)
      = Inr ?r"
    by (simp add: detect_regression_def b c py_defs default_thresholds_def)
  from strict_threshold_classification [OF b c l d] b c l d show ?thesis
    by (simp add: default_thresholds_def)
qed


section \<open>Order and determinism of the recommendations\<close>

lemma in_order_no_regression_message:
  "has_regression r = (execution_time_regression r \<or> memory_regression r \<or> failure_rate_regression r)
   \<Longrightarrow> (NoSignificantRegression \<in> set (recommendations_in_order th r) \<longleftrightarrow> \<not> has_regression r)
     \<and> count_list (recommendations_in_order th r) NoSignificantRegression \<le> 1"
  by (simp add: recommendations_in_order_def)

text \<open>
  Claim C9 says that the message that nothing regressed is appended if and only if no flag
  was triggered. In the short-circuit none of the three flags is set and the message is
  not there: with 4 successful benchmarks of the 5 required, and better figures than the
  baseline, the only recommendation is the one about the shortfall.
\<close>

theorem short_circuit_has_no_flag_and_no_message:
  "detect_regression default_thresholds (summary_of 100 50 0 20) (summary_of 90 40 0 4) =
     Inr \<lparr>has_regression = True, execution_time_regression = False,
          memory_regression = False, failure_rate_regression = False,
          execution_time_change = 0, memory_change = 0, failure_rate_change = 0,
          recommendations = [InsufficientBenchmarks (JNum 4) 5]\<rparr>
   \<and> NoSignificantRegression \<notin> set [InsufficientBenchmarks (JNum 4) 5]"
  by (simp add: detect_regression_def extract_metrics_def summary_of_def summary_items_def
        default_thresholds_def py_defs)

text \<open>
  Claim C9, amended. When the short-circuit does not apply, the recommendations of
  \<^verbatim>\<open>detect_regression\<close> are appended in the fixed order time, memory, failure rate,
  followed by the single message that nothing regressed if and only if none of the three
  flags is set; in the short-circuit the list is the one message about the shortfall. In
  both cases the message that nothing regressed is in the list exactly when
  \<^verbatim>\<open>has_regression\<close> is false, and at most once. The list, like the whole result,
  depends on the two inputs only through their metrics and on the thresholds, so equal
  metrics and thresholds give equal recommendation lists.
\<close>

theorem recommendations_order_and_purity:
  "(extract_metrics current_data = Inr (ct, cmem, cfr, cs, ctot)
      \<and> detect_regression th baseline_data current_data = Inr r
    \<longrightarrow> recommendations r =
          (if py_lt cs (real_of_int (min_benchmarks th)) = Inr True
           then [InsufficientBenchmarks cs (min_benchmarks th)]
           else recommendations_in_order th r)
      \<and> (NoSignificantRegression \<in> set (recommendations r) \<longleftrightarrow> \<not> has_regression r)
      \<and> count_list (recommendations r) NoSignificantRegression \<le> 1
      \<and> (py_lt cs (real_of_int (min_benchmarks th)) = Inr False \<longrightarrow>
           (NoSignificantRegression \<in> set (recommendations r) \<longleftrightarrow>
              \<not> execution_time_regression r \<and> \<not> memory_regression r
              \<and> \<not> failure_rate_regression r)))
   \<and> (extract_metrics baseline_data = extract_metrics baseline_data'
      \<and> extract_metrics current_data = extract_metrics current_data'
    \<longrightarrow> detect_regression th baseline_data current_data =
        detect_regression th baseline_data' current_data')"
proof (intro conjI impI)
  assume "extract_metrics baseline_data = extract_metrics baseline_data'
      \<and> extract_metrics current_data = extract_metrics current_data'"
  then show "detect_regression th baseline_data current_data =
        detect_regression th baseline_data' current_data'"
    by (simp add: detect_regression_def)
next
  assume h: "extract_metrics current_data = Inr (ct, cmem, cfr, cs, ctot)
      \<and> detect_regression th baseline_data current_data = Inr r"
  then obtain bt bmem bfr bs btot too_few where
    b: "extract_metrics baseline_data = Inr (bt, bmem, bfr, bs, btot)"
    and lt: "py_lt cs (real_of_int (min_benchmarks th)) = Inr too_few"
    unfolding detect_regression_def by (auto simp: and_then_Inr_iff)
  have c: "extract_metrics current_data = Inr (ct, cmem, cfr, cs, ctot)"
    and d: "detect_regression th baseline_data current_data = Inr r"
    using h by simp_all
  have all: "recommendations r =
          (if py_lt cs (real_of_int (min_benchmarks th)) = Inr True
           then [InsufficientBenchmarks cs (min_benchmarks th)]
           else recommendations_in_order th r)
      \<and> (NoSignificantRegression \<in> set (recommendations r) \<longleftrightarrow> \<not> has_regression r)
      \<and> count_list (recommendations r) NoSignificantRegression \<le> 1
      \<and> (py_lt cs (real_of_int (min_benchmarks th)) = Inr False \<longrightarrow>
           (NoSignificantRegression \<in> set (recommendations r) \<longleftrightarrow>
              \<not> execution_time_regression r \<and> \<not> memory_regression r
              \<and> \<not> failure_rate_regression r))"
  proof (cases too_few)
    case True
    with b c lt d have "r = \<lparr>has_regression = True, execution_time_regression = False,
                memory_regression = False, failure_rate_regression = False,
                execution_time_change = 0, memory_change = 0, failure_rate_change = 0,
                recommendations = [InsufficientBenchmarks cs (min_benchmarks th)]\<rparr>"
      by (simp add: detect_regression_def)
    with True lt show ?thesis by simp
  next
    case False
    with lt have lt': "py_lt cs (real_of_int (min_benchmarks th)) = Inr False" by simp
    from detect_regression_result [OF b c lt' d]
    have r: "recommendations r = recommendations_in_order th r"
      and hr: "has_regression r =
        (execution_time_regression r \<or> memory_regression r \<or> failure_rate_regression r)"
      by blast+
    from in_order_no_regression_message [OF hr, of th] r hr lt' show ?thesis by simp
  qed
  from all show "recommendations r =
          (if py_lt cs (real_of_int (min_benchmarks th)) = Inr True
           then [InsufficientBenchmarks cs (min_benchmarks th)]
           else recommendations_in_order th r)" by blast
  from all show "NoSignificantRegression \<in> set (recommendations r) \<longleftrightarrow> \<not> has_regression r"
    by blast
  from all show "count_list (recommendations r) NoSignificantRegression \<le> 1" by blast
  from all show "NoSignificantRegression \<in> set (recommendations r) \<longleftrightarrow>
              \<not> execution_time_regression r \<and> \<not> memory_regression r
              \<and> \<not> failure_rate_regression r"
    if "py_lt cs (real_of_int (min_benchmarks th)) = Inr False"
    using that by blast
qed

theorem recommendations_order_and_purity_witness:
  "extract_metrics (summary_of 200 100 4 20) = Inr (JNum 200, JNum 100, 1 / 5, JNum 16, JNum 20)
   \<and> detect_regression default_thresholds (summary_of 100 50 0 20) (summary_of 200 100 4 20) =
       Inr \<lparr>has_regression = True, execution_time_regression = True,
            memory_regression = True, failure_rate_regression = True,
            execution_time_change = 100, memory_change = 100, failure_rate_change = 1 / 5,
            recommendations = [ExecutionTimeIncreased 100 10, MemoryUsageIncreased 100 15,
                               FailureRateIncreased (1 / 5) 5]\<rparr>
   \<and> extract_metrics (summary_of 100 50 0 20) =
       extract_metrics (JObj ((''regression_detected'', JBool True) # summary_items 100 50 0 20))
   \<and> detect_regression default_thresholds (summary_of 100 50 0 20) (summary_of 200 100 4 20) =
       detect_regression default_thresholds
         (JObj ((''regression_detected'', JBool True) # summary_items 100 50 0 20))
         (summary_of 200 100 4 20)"
proof -
  let ?r = "\<lparr>has_regression = True, execution_time_regression = True,
            memory_regression = True, failure_rate_regression = True,
            execution_time_change = 100, memory_change = 100, failure_rate_change = 1 / 5,
            recommendations = [ExecutionTimeIncreased 100 10, MemoryUsageIncreased 100 15,
                               FailureRateIncreased (1 / 5) 5]\<rparr>"
  have b: "extract_metrics (summary_of 100 50 0 20) = Inr (JNum 100, JNum 50, 0, JNum 20, JNum 20)"
    by (simp add: extract_metrics_def summary_of_def summary_items_def py_defs)
  have b': "extract_metrics (JObj ((''regression_detected'', JBool True) # summary_items 100 50 0 20))
      = Inr (JNum 100, JNum 50, 0, JNum 20, JNum 20)"
    by (simp add: extract_metrics_def summary_items_def py_defs)
  have c: "extract_metrics (summary_of 200 100 4 20) = Inr (JNum 200, JNum 100, 1 / 5, JNum 16, JNum 20)"
    by (simp add: extract_metrics_def summary_of_def summary_items_def py_defs)
  have d: "detect_regression default_thresholds (summary_of 100 50 0 20) (summary_of 200 100 4 20)
      = Inr ?r"
    by (simp add: detect_regression_def b c py_defs default_thresholds_def Let_def)
  from recommendations_order_and_purity [of "summary_of 200 100 4 20" "JNum 200" "JNum 100" "1 / 5"
      "JNum 16" "JNum 20" default_thresholds "summary_of 100 50 0 20" ?r
      "JObj ((''regression_detected'', JBool True) # summary_items 100 50 0 20)"
      "summary_of 200 100 4 20"] b b' c d
  show ?thesis by simp
qed


section \<open>A baseline in which every benchmark failed\<close>

text \<open>
  Claim C10 says that a baseline list without a successful record can never set the time
  or memory flag. Its averages are 0.0 and both changes are 0.0 indeed, but each flag is
  the comparison of 0.0 with a threshold that may be negative: with
  \<^verbatim>\<open>--memory-threshold -1\<close> the memory flag is set.
\<close>

theorem failed_baseline_flags_with_negative_threshold:
  "detect_regression (default_thresholds\<lparr>memory_usage_percent := - 1\<rparr>)
       (JArr [benchmark_record False 10 1048576]) (summary_of 5000 50 0 20) =
     Inr \<lparr>has_regression = True, execution_time_regression = False,
          memory_regression = True, failure_rate_regression = False,
          execution_time_change = 0, memory_change = 0, failure_rate_change = - 1,
          recommendations = [MemoryUsageIncreased 0 (- 1)]\<rparr>"
  by (simp add: detect_regression_def extract_metrics_def summary_of_def summary_items_def
        benchmark_record_def default_thresholds_def py_defs)

text \<open>
  Claim C10, amended. If every record of the baseline list is a dict whose \<^verbatim>\<open>success\<close>
  is false or absent, the baseline metrics are (0.0, 0.0, 1.0, 0, N), and for every
  current metrics that pass the short-circuit \<^verbatim>\<open>detect_regression\<close> returns a result
  whose time and memory changes are 0.0 and whose time and memory flags are the truth
  values of \<^verbatim>\<open>0.0 > threshold\<close>: they are not set whenever the thresholds are not
  negative, however slow the current run is.
\<close>

theorem failed_baseline_never_compares:
  assumes "list_all (\<lambda>r. is_failure r = Inr True) rs"
    and "extract_metrics current_data = Inr (ct, cmem, cfr, cs, ctot)"
    and "py_lt cs (real_of_int (min_benchmarks th)) = Inr False"
  shows "extract_metrics (JArr rs) = Inr (JNum 0, JNum 0, 1, JNum 0, JNum (real (length rs)))
     \<and> (\<exists>r. detect_regression th (JArr rs) current_data = Inr r
          \<and> execution_time_change r = 0 \<and> memory_change r = 0
          \<and> (execution_time_regression r \<longleftrightarrow> 0 > execution_time_percent th)
          \<and> (memory_regression r \<longleftrightarrow> 0 > memory_usage_percent th)
          \<and> (0 \<le> execution_time_percent th \<longrightarrow> \<not> execution_time_regression r)
          \<and> (0 \<le> memory_usage_percent th \<longrightarrow> \<not> memory_regression r))"
proof -
  note b = extract_metrics_all_failed [OF assms(1)]
  have "\<exists>r. detect_regression th (JArr rs) current_data = Inr r
          \<and> execution_time_change r = 0 \<and> memory_change r = 0
          \<and> (execution_time_regression r \<longleftrightarrow> 0 > execution_time_percent th)
          \<and> (memory_regression r \<longleftrightarrow> 0 > memory_usage_percent th)"
    using assms(2,3) by (simp add: detect_regression_def b py_gt_def Let_def)
  then show ?thesis using b by auto
qed

theorem failed_baseline_never_compares_witness:
  "list_all (\<lambda>r. is_failure r = Inr True)
       [benchmark_record False 10 1048576, failed_record_without_metrics]
   \<and> extract_metrics (summary_of 5000 50 0 20) = Inr (JNum 5000, JNum 50, 0, JNum 20, JNum 20)
   \<and> py_lt (JNum 20) (real_of_int (min_benchmarks default_thresholds)) = Inr False
   \<and> extract_metrics (JArr [benchmark_record False 10 1048576, failed_record_without_metrics]) =
       Inr (JNum 0, JNum 0, 1, JNum 0, JNum 2)
   \<and> (\<exists>r. detect_regression default_thresholds
            (JArr [benchmark_record False 10 1048576, failed_record_without_metrics])
            (summary_of 5000 50 0 20) = Inr r
        \<and> execution_time_change r = 0 \<and> memory_change r = 0
        \<and> \<not> execution_time_regression r \<and> \<not> memory_regression r)"
proof -
  have a: "list_all (\<lambda>r. is_failure r = Inr True)
       [benchmark_record False 10 1048576, failed_record_without_metrics]"
    by (simp add: benchmark_record_def failed_record_without_metrics_def py_defs)
  have c: "extract_metrics (summary_of 5000 50 0 20) = Inr (JNum 5000, JNum 50, 0, JNum 20, JNum 20)"
    by (simp add: extract_metrics_def summary_of_def summary_items_def py_defs)
  have l: "py_lt (JNum 20) (real_of_int (min_benchmarks default_thresholds)) = Inr False"
    by (simp add: py_lt_def default_thresholds_def)
  have t: "0 \<le> execution_time_percent default_thresholds"
    "0 \<le> memory_usage_percent default_thresholds"
    by (simp_all add: default_thresholds_def)
  from failed_baseline_never_compares [OF a c l] a c l t show ?thesis
    by auto
qed


section \<open>Where extraction raises\<close>

text \<open>
  Claim C2 says that \<^verbatim>\<open>extract_metrics\<close> never raises. It does on ill-typed input: a
  list element that is not a dict has no \<^verbatim>\<open>get\<close>, nor has a \<^verbatim>\<open>metrics\<close> value that is
  \<^verbatim>\<open>null\<close>, and \<^verbatim>\<open>max\<close> cannot compare a string with 1.
\<close>

theorem extract_metrics_raises:
  "extract_metrics (JArr [JStr ''oops'']) = Inl AttributeError
   \<and> extract_metrics (JArr [JObj [(''success'', JBool True), (''metrics'', JNull)]])
        = Inl AttributeError
   \<and> extract_metrics (JObj [(''total_benchmarks'', JStr ''many'')]) = Inl TypeError"
  by (simp add: extract_metrics_def py_defs)

text \<open>
  Claim C2, amended. \<^verbatim>\<open>extract_metrics\<close> is not total. On a readable input whose
  numbers are within the range of a float it returns the tuple of the specification:
  zeros for a scalar or \<^verbatim>\<open>null\<close>; for a list the tuple of total failure or the means
  over the successful records, the failure rate and the counts; for a summary dict its
  fields as they are and the failed count over the larger of the total and 1; an absent
  field is read as its numeric default. On every input that is not readable it raises,
  and with numbers within the range of a float the exception is \<^verbatim>\<open>AttributeError\<close> or
  \<^verbatim>\<open>TypeError\<close>.
\<close>

theorem extract_metrics_reads_or_raises:
  "(readable data \<and> within_float_range data
      \<longrightarrow> extract_metrics data = Inr (expected_metrics data))
   \<and> (\<not> readable data \<longrightarrow> (\<exists>e. extract_metrics data = Inl e))
   \<and> (\<not> readable data \<and> within_float_range data
      \<longrightarrow> extract_metrics data = Inl AttributeError \<or> extract_metrics data = Inl TypeError)"
proof -
  have raises: "\<exists>e. extract_metrics data = Inl e \<and> (e = AttributeError \<or> e = TypeError)"
    if "\<not> readable data"
  proof (cases "extract_metrics data")
    case (Inl e)
    with extract_metrics_error [of data e] show ?thesis by simp
  next
    case (Inr m)
    with that extract_metrics_returns_iff [of data] show ?thesis by blast
  qed
  show ?thesis
    using raises extract_metrics_value [of data] by auto
qed

theorem extract_metrics_reads_or_raises_witness:
  "readable (JArr [benchmark_record True 100 1048576, benchmark_record True 200 3145728,
                   failed_record_without_metrics])
   \<and> within_float_range (JArr [benchmark_record True 100 1048576,
         benchmark_record True 200 3145728, failed_record_without_metrics])
   \<and> extract_metrics (JArr [benchmark_record True 100 1048576,
         benchmark_record True 200 3145728, failed_record_without_metrics])
       = Inr (JNum 150, JNum 2, 1 / 3, JNum 2, JNum 3)
   \<and> readable (JObj [(''avg_execution_time'', JNum 12)])
   \<and> within_float_range (JObj [(''avg_execution_time'', JNum 12)])
   \<and> extract_metrics (JObj [(''avg_execution_time'', JNum 12)])
       = Inr (JNum 12, JNum 0, 0, JNum 0, JNum 0)
   \<and> \<not> readable (JArr [JStr ''oops''])
   \<and> within_float_range (JArr [JStr ''oops''])
   \<and> (extract_metrics (JArr [JStr ''oops'']) = Inl AttributeError
        \<or> extract_metrics (JArr [JStr ''oops'']) = Inl TypeError)"
proof -
  let ?a = "JArr [benchmark_record True 100 1048576, benchmark_record True 200 3145728,
                   failed_record_without_metrics]"
  let ?b = "JObj [(''avg_execution_time'', JNum 12)]"
  let ?c = "JArr [JStr ''oops'']"
  have ra: "readable ?a"
    by (simp add: benchmark_record_def failed_record_without_metrics_def dict_get_def)
  have wa: "within_float_range ?a"
    by (simp add: benchmark_record_def failed_record_without_metrics_def dict_get_def
          max_float_def)
  have ea: "expected_metrics ?a = (JNum 150, JNum 2, 1 / 3, JNum 2, JNum 3)"
    by (simp add: benchmark_record_def failed_record_without_metrics_def dict_get_def
          average_def number_def)
  have rb: "readable ?b" by (simp add: dict_get_def)
  have wb: "within_float_range ?b" by (simp add: dict_get_def max_float_def)
  have eb: "expected_metrics ?b = (JNum 12, JNum 0, 0, JNum 0, JNum 0)"
    by (simp add: dict_get_def number_def)
  have rc: "\<not> readable ?c" by simp
  have wc: "within_float_range ?c" by simp
  from extract_metrics_reads_or_raises [of ?a] extract_metrics_reads_or_raises [of ?b]
    extract_metrics_reads_or_raises [of ?c] ra wa ea rb wb eb rc wc
  show ?thesis by simp
qed


section \<open>The range of the extracted metrics\<close>

text \<open>
  Claim C4 says that every extracted tuple has a failure rate in [0, 1] and at most as
  many successful as total benchmarks. A summary dict is passed through unchecked: 5
  failed of 2 in total with 7 successful gives a failure rate of 2.5 and 7 successful of 2.
\<close>

theorem summary_metrics_out_of_range:
  "extract_metrics (JObj [(''failed_benchmarks'', JNum 5), (''total_benchmarks'', JNum 2),
                          (''successful_benchmarks'', JNum 7)])
     = Inr (JNum 0, JNum 0, 5 / 2, JNum 7, JNum 2)"
  by (simp add: extract_metrics_def py_defs)

text \<open>
  Claim C4, amended. A tuple extracted from anything but a summary dict (a list, a scalar,
  \<^verbatim>\<open>null\<close>) has a failure rate in [0, 1] and numeric counts with
  0 \<le> successful \<le> total. From a summary dict the two counts are the dict's own
  \<^verbatim>\<open>successful_benchmarks\<close> and \<^verbatim>\<open>total_benchmarks\<close>, and the failure rate is
  \<^verbatim>\<open>failed_benchmarks / max(total_benchmarks, 1)\<close>, whatever their values.
\<close>

theorem list_metrics_invariant:
  "(extract_metrics data = Inr (t, m, fr, s, n) \<and> \<not> is_summary data
      \<longrightarrow> 0 \<le> fr \<and> fr \<le> 1 \<and> (\<exists>a b. s = JNum a \<and> n = JNum b \<and> 0 \<le> a \<and> a \<le> b))
   \<and> (extract_metrics (JObj kv) = Inr (t', m', fr', s', n')
      \<longrightarrow> s' = dict_get kv ''successful_benchmarks'' (JNum 0)
        \<and> n' = dict_get kv ''total_benchmarks'' (JNum 0)
        \<and> (\<exists>f d. num_of (dict_get kv ''failed_benchmarks'' (JNum 0)) = Some f
              \<and> num_of (dict_get kv ''total_benchmarks'' (JNum 1)) = Some d
              \<and> fr' = f / max d 1))"
proof (intro conjI impI)
  assume "extract_metrics (JObj kv) = Inr (t', m', fr', s', n')"
  then have k: "s' = dict_get kv ''successful_benchmarks'' (JNum 0)
        \<and> n' = dict_get kv ''total_benchmarks'' (JNum 0)
        \<and> (\<exists>f d. num_of (dict_get kv ''failed_benchmarks'' (JNum 0)) = Some f
              \<and> num_of (dict_get kv ''total_benchmarks'' (JNum 1)) = Some d
              \<and> fr' = f / max d 1)"
    by (auto simp: extract_metrics_def and_then_Inr_iff py_max1_def py_truediv_def max_def
        split: option.splits if_splits)
  from k show "s' = dict_get kv ''successful_benchmarks'' (JNum 0)" by blast
  from k show "n' = dict_get kv ''total_benchmarks'' (JNum 0)" by blast
  from k show "\<exists>f d. num_of (dict_get kv ''failed_benchmarks'' (JNum 0)) = Some f
              \<and> num_of (dict_get kv ''total_benchmarks'' (JNum 1)) = Some d
              \<and> fr' = f / max d 1" by blast
next
  assume h: "extract_metrics data = Inr (t, m, fr, s, n) \<and> \<not> is_summary data"
  have "0 \<le> fr \<and> fr \<le> 1 \<and> (\<exists>a b. s = JNum a \<and> n = JNum b \<and> 0 \<le> a \<and> a \<le> b)"
  proof (cases data)
    case (JArr rs)
    with h obtain S F where fs: "filter_e is_success rs = Inr S"
      and ff: "filter_e is_failure rs = Inr F"
      and shape: "(S = [] \<and> fr = 1 \<and> s = JNum 0 \<and> n = JNum (real (length rs)))
         \<or> (rs \<noteq> [] \<and> fr = real (length F) / real (length rs)
            \<and> s = JNum (real (length S)) \<and> n = JNum (real (length rs)))"
      by (auto simp: extract_metrics_def and_then_Inr_iff py_truediv_def split: if_splits)
    from fs ff have "length S \<le> length rs" "length F \<le> length rs"
      by (simp_all add: filter_e_Inr_iff)
    with shape show ?thesis by (auto simp: divide_le_eq)
  next
    case (JObj kv)
    with h show ?thesis by simp
  qed (use h in \<open>auto simp: extract_metrics_def\<close>)
  then show "0 \<le> fr" "fr \<le> 1" "\<exists>a b. s = JNum a \<and> n = JNum b \<and> 0 \<le> a \<and> a \<le> b"
    by blast+
qed

theorem list_metrics_invariant_witness:
  "extract_metrics (JArr [benchmark_record True 100 1048576, failed_record_without_metrics])
      = Inr (JNum 100, JNum 1, 1 / 2, JNum 1, JNum 2)
   \<and> \<not> is_summary (JArr [benchmark_record True 100 1048576, failed_record_without_metrics])
   \<and> (0::real) \<le> 1 / 2 \<and> (1::real) / 2 \<le> 1 \<and> (1::real) \<le> 2
   \<and> extract_metrics (JObj [(''failed_benchmarks'', JNum 1), (''total_benchmarks'', JNum 4)])
      = Inr (JNum 0, JNum 0, 1 / 4, JNum 0, JNum 4)"
proof -
  have a: "extract_metrics (JArr [benchmark_record True 100 1048576, failed_record_without_metrics])
      = Inr (JNum 100, JNum 1, 1 / 2, JNum 1, JNum 2)"
    by (simp add: extract_metrics_def benchmark_record_def failed_record_without_metrics_def py_defs)
  have b: "extract_metrics (JObj [(''failed_benchmarks'', JNum 1), (''total_benchmarks'', JNum 4)])
      = Inr (JNum 0, JNum 0, 1 / 4, JNum 0, JNum 4)"
    by (simp add: extract_metrics_def py_defs)
  have c: "\<not> is_summary (JArr [benchmark_record True 100 1048576, failed_record_without_metrics])"
    by simp
  from list_metrics_invariant [of
      "JArr [benchmark_record True 100 1048576, failed_record_without_metrics]"
      "JNum 100" "JNum 1" "1 / 2" "JNum 1" "JNum 2"
      "[(''failed_benchmarks'', JNum 1), (''total_benchmarks'', JNum 4)]"
      "JNum 0" "JNum 0" "1 / 4" "JNum 0" "JNum 4"] a b c
  show ?thesis by simp
qed


section \<open>The status of the analyzer's summary\<close>

lemma load_items_failed:
  "list_all failed_with_metrics xs \<Longrightarrow> \<forall>r \<in> set acc. \<not> truthy (success r)
   \<Longrightarrow> length (load_items xs acc) = length acc + length xs
     \<and> (\<forall>r \<in> set (load_items xs acc). \<not> truthy (success r))"
proof (induction xs arbitrary: acc)
  case Nil
  then show ?case by simp
next
  case (Cons x xs)
  from Cons.prems(1) obtain kv m where x: "x = JObj kv" and m: "map_of kv ''metrics'' = Some (JObj m)"
    and f: "\<not> truthy (dict_get kv ''success'' (JBool False))"
    by (cases x) (auto split: option.splits json.splits)
  from f Cons.prems(2) have "\<forall>r \<in> set (acc @ [make_result kv m]). \<not> truthy (success r)"
    by (simp add: make_result_def)
  with Cons.IH [of "acc @ [make_result kv m]"] Cons.prems(1)
  show ?case by (simp add: x m)
qed

lemma analyze_status:
  assumes "analyze_performance th results baseline_results = Inr s"
  shows "status s =
        (if results = [] then ''ERROR''
         else if filter (\<lambda>r. truthy (success r)) results = [] then ''FAILED''
         else if regression_detected s then ''REGRESSION''
         else if filter (\<lambda>r. \<not> truthy (success r)) results \<noteq> [] then ''PARTIAL''
         else ''PASS'')"
proof (cases "results = [] \<or> filter (\<lambda>r. truthy (success r)) results = []")
  case True
  with assms show ?thesis
    by (auto simp: analyze_performance_def Let_def)
next
  case False
  with assms obtain detected ns a m where
    "s = \<lparr>status = (if detected then ''REGRESSION''
                     else if length (filter (\<lambda>r. \<not> truthy (success r)) results) > 0
                     then ''PARTIAL'' else ''PASS''),
            avg_execution_time = a, summary_memory_usage = m,
            regression_detected = detected,
            failed_benchmarks = length (filter (\<lambda>r. \<not> truthy (success r)) results),
            total_benchmarks = length results,
            summary_recommendations = ns\<rparr>"
    unfolding analyze_performance_def
    by (simp add: and_then_Inr_iff Let_def split_beta del: split_paired_Ex) blast
  with False show ?thesis by simp
qed

text \<open>
  Claim C8 says that a list in which every entry has \<^verbatim>\<open>success\<close> false gives the metrics
  (0.0, 0.0, 1.0, 0, N) and the status \<^verbatim>\<open>FAILED\<close>. The metrics are as said, but the
  analyzer loads only the entries that carry a \<^verbatim>\<open>metrics\<close> key: a failed benchmark
  recorded with an error and no metrics is not a record for it, and a file of such
  entries gives the status \<^verbatim>\<open>ERROR\<close>.
\<close>

theorem failed_records_without_metrics_are_dropped:
  "extract_metrics (JArr [failed_record_without_metrics]) = Inr (JNum 0, JNum 0, 1, JNum 0, JNum 1)
   \<and> load_json_file (Parsed (JArr [failed_record_without_metrics])) [] = []
   \<and> analyze_performance default_perf_thresholds
        (load_json_file (Parsed (JArr [failed_record_without_metrics])) []) [] =
       Inr \<lparr>status = ''ERROR'', avg_execution_time = 0, summary_memory_usage = 0,
             regression_detected = False, failed_benchmarks = 0, total_benchmarks = 0,
             summary_recommendations = [NoResultsFound]\<rparr>"
  by (simp add: extract_metrics_def failed_record_without_metrics_def py_defs
        load_json_file_def analyze_performance_def)

text \<open>
  Claim C8, amended. Whenever \<^verbatim>\<open>analyze_performance\<close> produces a summary, its status is
  \<^verbatim>\<open>ERROR\<close> if no record was loaded, else \<^verbatim>\<open>FAILED\<close> if no loaded record succeeded,
  else \<^verbatim>\<open>REGRESSION\<close> if a regression was detected, else \<^verbatim>\<open>PARTIAL\<close> if some record
  failed, else \<^verbatim>\<open>PASS\<close>. A non-empty list in which every entry is a dict with a dict
  under \<^verbatim>\<open>metrics\<close> and \<^verbatim>\<open>success\<close> false or absent gives the metrics
  (0.0, 0.0, 1.0, 0, N), and the analyzer returns the status \<^verbatim>\<open>FAILED\<close> with N failed of
  N benchmarks.
\<close>

theorem status_derivation:
  "(analyze_performance th results baseline_results = Inr s \<longrightarrow>
      status s =
        (if results = [] then ''ERROR''
         else if filter (\<lambda>r. truthy (success r)) results = [] then ''FAILED''
         else if regression_detected s then ''REGRESSION''
         else if filter (\<lambda>r. \<not> truthy (success r)) results \<noteq> [] then ''PARTIAL''
         else ''PASS''))
   \<and> (xs \<noteq> [] \<and> list_all failed_with_metrics xs \<longrightarrow>
        extract_metrics (JArr xs) = Inr (JNum 0, JNum 0, 1, JNum 0, JNum (real (length xs)))
      \<and> (\<exists>s'. analyze_performance th (load_json_file (Parsed (JArr xs)) []) baseline_results
               = Inr s'
           \<and> status s' = ''FAILED'' \<and> failed_benchmarks s' = length xs
           \<and> total_benchmarks s' = length xs))"
proof (intro conjI impI)
  assume "analyze_performance th results baseline_results = Inr s"
  then show "status s =
        (if results = [] then ''ERROR''
         else if filter (\<lambda>r. truthy (success r)) results = [] then ''FAILED''
         else if regression_detected s then ''REGRESSION''
         else if filter (\<lambda>r. \<not> truthy (success r)) results \<noteq> [] then ''PARTIAL''
         else ''PASS'')"
    by (rule analyze_status)
next
  assume h: "xs \<noteq> [] \<and> list_all failed_with_metrics xs"
  have "is_failure r = Inr True" if "failed_with_metrics r" for r
    using that by (cases r) (auto simp: is_failure_def)
  with h have "list_all (\<lambda>r. is_failure r = Inr True) xs"
    by (simp add: list_all_iff)
  then show "extract_metrics (JArr xs) = Inr (JNum 0, JNum 0, 1, JNum 0, JNum (real (length xs)))"
    by (rule extract_metrics_all_failed)
  let ?rs = "load_json_file (Parsed (JArr xs)) []"
  from h load_items_failed [of xs "[]"]
  have len: "length ?rs = length xs" and fl: "\<forall>r \<in> set ?rs. \<not> truthy (success r)"
    by (simp_all add: load_json_file_def)
  from len h have ne: "?rs \<noteq> []" by auto
  from fl have f1: "filter (\<lambda>r. truthy (success r)) ?rs = []"
    by (simp add: filter_empty_conv)
  from fl have f2: "filter (\<lambda>r. \<not> truthy (success r)) ?rs = ?rs"
    by (simp add: filter_id_conv)
  show "\<exists>s'. analyze_performance th ?rs baseline_results = Inr s'
           \<and> status s' = ''FAILED'' \<and> failed_benchmarks s' = length xs
           \<and> total_benchmarks s' = length xs"
    using ne f1 f2 len by (simp add: analyze_performance_def)
qed

theorem status_derivation_witness:
  "analyze_performance (default_perf_thresholds\<lparr>max_failed_benchmarks := 1\<rparr>)
       (load_json_file (Parsed (JArr [benchmark_record True 100 1048576,
                                      benchmark_record False 0 0])) []) []
     = Inr \<lparr>status = ''PARTIAL'', avg_execution_time = 100, summary_memory_usage = 1,
           regression_detected = False, failed_benchmarks = 1, total_benchmarks = 2,
           summary_recommendations = []\<rparr>
   \<and> [benchmark_record False 10 1048576] \<noteq> []
   \<and> list_all failed_with_metrics [benchmark_record False 10 1048576]
   \<and> extract_metrics (JArr [benchmark_record False 10 1048576])
       = Inr (JNum 0, JNum 0, 1, JNum 0, JNum 1)
   \<and> (\<exists>s'. analyze_performance (default_perf_thresholds\<lparr>max_failed_benchmarks := 1\<rparr>)
             (load_json_file (Parsed (JArr [benchmark_record False 10 1048576])) []) [] = Inr s'
        \<and> status s' = ''FAILED'' \<and> failed_benchmarks s' = 1 \<and> total_benchmarks s' = 1)"
proof -
  let ?th = "default_perf_thresholds\<lparr>max_failed_benchmarks := 1\<rparr>"
  let ?s = "\<lparr>status = ''PARTIAL'', avg_execution_time = 100, summary_memory_usage = 1,
           regression_detected = False, failed_benchmarks = 1, total_benchmarks = 2,
           summary_recommendations = []\<rparr>"
  have l: "load_json_file (Parsed (JArr [benchmark_record True 100 1048576,
                                      benchmark_record False 0 0])) []
      = [make_result [(''suite'', JStr ''core''), (''name'', JStr ''bench''), (''success'', JBool True),
           (''metrics'', JObj [(''executionTime'', JNum 100), (''memoryUsage'', JNum 1048576)])]
           [(''executionTime'', JNum 100), (''memoryUsage'', JNum 1048576)],
         make_result [(''suite'', JStr ''core''), (''name'', JStr ''bench''), (''success'', JBool False),
           (''metrics'', JObj [(''executionTime'', JNum 0), (''memoryUsage'', JNum 0)])]
           [(''executionTime'', JNum 0), (''memoryUsage'', JNum 0)]]"
    by (simp add: load_json_file_def benchmark_record_def)
  have a: "analyze_performance ?th
       (load_json_file (Parsed (JArr [benchmark_record True 100 1048576,
                                      benchmark_record False 0 0])) []) [] = Inr ?s"
    unfolding l
    by (simp add: analyze_performance_def make_result_def dict_get_def mean_def
          default_perf_thresholds_def Let_def)
  have f: "list_all failed_with_metrics [benchmark_record False 10 1048576]"
    by (simp add: benchmark_record_def dict_get_def)
  from status_derivation [of ?th
      "load_json_file (Parsed (JArr [benchmark_record True 100 1048576,
                                      benchmark_record False 0 0])) []" "[]" ?s
      "[benchmark_record False 10 1048576]"] a f
  show ?thesis by simp
qed

end
